theory Spec2Isabelle
  imports Complex_Main "HOL-Library.Sublist"
begin

section \<open>Python strings and regular expressions, as the program uses them\<close>

text \<open>
  A Python \<open>str\<close> is modelled as a \<open>string\<close> whose characters are ASCII code points.
  The predicates below are Python's on that range: \<open>str.lower\<close> maps \<open>A\<close>..\<open>Z\<close>,
  \<open>str.split()\<close> and the pattern \<open>\s\<close> take the characters 9..13, 28..31 and 32 as
  white space, \<open>\w\<close> is a letter, a digit or the underscore, \<open>\d\<close> is a digit.
  Code points beyond ASCII are outside the model.
\<close>

definition code :: "char \<Rightarrow> nat" where
  "code c = of_char c"

definition is_upper :: "char \<Rightarrow> bool" where
  "is_upper c = (65 \<le> code c \<and> code c \<le> 90)"

definition is_lower :: "char \<Rightarrow> bool" where
  "is_lower c = (97 \<le> code c \<and> code c \<le> 122)"

definition is_digit :: "char \<Rightarrow> bool" where
  "is_digit c = (48 \<le> code c \<and> code c \<le> 57)"

definition is_space :: "char \<Rightarrow> bool" where
  "is_space c = ((9 \<le> code c \<and> code c \<le> 13) \<or> (28 \<le> code c \<and> code c \<le> 32))"

definition is_word :: "char \<Rightarrow> bool" where
  "is_word c = (is_upper c \<or> is_lower c \<or> is_digit c \<or> c = CHR ''_'')"

definition upper_letters :: string where
  "upper_letters = ''ABCDEFGHIJKLMNOPQRSTUVWXYZ''"

definition lower_letters :: string where
  "lower_letters = ''abcdefghijklmnopqrstuvwxyz''"

definition lower_char :: "char \<Rightarrow> char" where
  "lower_char c = (case map_of (zip upper_letters lower_letters) c of None \<Rightarrow> c | Some l \<Rightarrow> l)"

definition upper_char :: "char \<Rightarrow> char" where
  "upper_char c = (case map_of (zip lower_letters upper_letters) c of None \<Rightarrow> c | Some u \<Rightarrow> u)"

text \<open>\<open>s.lower()\<close>\<close>

definition lower :: "string \<Rightarrow> string" where
  "lower s = map lower_char s"

text \<open>\<open>sub in s\<close> for strings: \<open>sub\<close> occurs in \<open>s\<close> as a contiguous run.\<close>

fun contains :: "string \<Rightarrow> string \<Rightarrow> bool" where
  "contains [] sub = (sub = [])"
| "contains (c # cs) sub = (prefix sub (c # cs) \<or> contains cs sub)"

text \<open>
  \<open>s.split()\<close>: the maximal runs of characters that are not white space. \<open>split_run\<close>
  carries the run being read, reversed.
\<close>

fun split_run :: "string \<Rightarrow> string \<Rightarrow> string list" where
  "split_run acc [] = (if acc = [] then [] else [rev acc])"
| "split_run acc (c # cs) =
     (if is_space c then (if acc = [] then split_run [] cs else rev acc # split_run [] cs)
      else split_run (c # acc) cs)"

definition split_ws :: "string \<Rightarrow> string list" where
  "split_ws s = split_run [] s"

text \<open>\<open>sep.join(parts)\<close>\<close>

fun join :: "string \<Rightarrow> string list \<Rightarrow> string" where
  "join sep [] = []"
| "join sep [p] = p"
| "join sep (p # q # ps) = p @ sep @ join sep (q # ps)"

text \<open>
  \<open>s.split(sep)\<close> for a non-empty separator: the pieces between the occurrences of
  \<open>sep\<close>, found from the left; \<open>piece\<close> is the piece being read, reversed.
\<close>

function split_at :: "string \<Rightarrow> string \<Rightarrow> string \<Rightarrow> string list" where
  "split_at sep piece [] = [rev piece]"
| "split_at sep piece (c # cs) =
     (if sep \<noteq> [] \<and> prefix sep (c # cs)
      then rev piece # split_at sep [] (drop (length sep) (c # cs))
      else split_at sep (c # piece) cs)"
  by pat_completeness auto
termination
  by (relation "measure (\<lambda>(sep, piece, rest). length rest)") auto

definition split_sep :: "string \<Rightarrow> string \<Rightarrow> string list" where
  "split_sep s sep = split_at sep [] s"

text \<open>
  \<open>s.find(sub, start)\<close>: the lowest index from \<open>start\<close> on at which \<open>sub\<close> occurs;
  \<open>None\<close> stands for the result \<open>-1\<close>.
\<close>

fun find_at :: "string \<Rightarrow> string \<Rightarrow> nat \<Rightarrow> nat option" where
  "find_at [] sub pos = (if sub = [] then Some pos else None)"
| "find_at (c # cs) sub pos = (if prefix sub (c # cs) then Some pos else find_at cs sub (Suc pos))"

definition find :: "string \<Rightarrow> string \<Rightarrow> nat \<Rightarrow> nat option" where
  "find s sub start = (if length s < start then None else find_at (drop start s) sub start)"

text \<open>\<open>str(n)\<close> for a natural number, and \<open>int(s)\<close> for a string of digits.\<close>

definition digit_char :: "nat \<Rightarrow> char" where
  "digit_char n = ''0123456789'' ! (n mod 10)"

function str_of_nat :: "nat \<Rightarrow> string" where
  "str_of_nat n = (if n < 10 then [digit_char n] else str_of_nat (n div 10) @ [digit_char n])"
  by pat_completeness auto
termination
  by (relation "measure (\<lambda>n. n)") auto

definition int_of_digits :: "string \<Rightarrow> nat" where
  "int_of_digits s = foldl (\<lambda>acc c. 10 * acc + (code c - 48)) 0 s"

text \<open>\<open>s.strip()\<close>\<close>

definition strip :: "string \<Rightarrow> string" where
  "strip s = rev (dropWhile is_space (rev (dropWhile is_space s)))"

subsection \<open>Regular expressions\<close>

text \<open>
  The fragment of Python's \<open>re\<close> syntax that the program's patterns are written in.
  \<open>Chr c\<close> is a literal character, \<open>Dot\<close> is \<open>.\<close>, \<open>Digit\<close> is \<open>\d\<close>, \<open>Space\<close> is
  \<open>\s\<close>, \<open>Range a b\<close> is \<open>[a-b]\<close>, \<open>OneOf cs\<close> is a class \<open>[...]\<close> of single
  characters, \<open>WordB\<close> is \<open>\b\<close>, \<open>Eos\<close> is \<open>$\<close>; \<open>Opt\<close>, \<open>Star\<close> and \<open>Plus\<close> are the
  greedy \<open>?\<close>, \<open>*\<close> and \<open>+\<close>.
\<close>

datatype rx =
    Eps
  | Chr char
  | Dot
  | Digit
  | Space
  | Range char char
  | OneOf string
  | WordB
  | Eos
  | Seq rx rx
  | Alt rx rx
  | Opt rx
  | Star rx
  | Plus rx

text \<open>A literal string, and the concatenation of several patterns.\<close>

definition seqs :: "rx list \<Rightarrow> rx" where
  "seqs rs = foldr Seq rs Eps"

definition lit :: "string \<Rightarrow> rx" where
  "lit s = seqs (map Chr s)"

text \<open>
  A position in the subject string: the character just before it (\<open>None\<close> at the start)
  and the text that remains.
\<close>

type_synonym cursor = "char option \<times> string"

definition chr_eq :: "bool \<Rightarrow> char \<Rightarrow> char \<Rightarrow> bool" where
  "chr_eq ic c x = (if ic then lower_char c = lower_char x else c = x)"

definition in_range :: "bool \<Rightarrow> char \<Rightarrow> char \<Rightarrow> char \<Rightarrow> bool" where
  "in_range ic a b x =
     ((code a \<le> code x \<and> code x \<le> code b) \<or>
      (ic \<and> ((code a \<le> code (lower_char x) \<and> code (lower_char x) \<le> code b) \<or>
             (code a \<le> code (upper_char x) \<and> code (upper_char x) \<le> code b))))"

text \<open>Consume one character satisfying \<open>p\<close>.\<close>

fun one :: "(char \<Rightarrow> bool) \<Rightarrow> cursor \<Rightarrow> cursor list" where
  "one p (prev, []) = []"
| "one p (prev, x # xs) = (if p x then [(Some x, xs)] else [])"

fun at_boundary :: "cursor \<Rightarrow> bool" where
  "at_boundary (prev, rest) =
     ((case prev of None \<Rightarrow> False | Some p \<Rightarrow> is_word p) \<noteq>
      (case rest of [] \<Rightarrow> False | x # xs \<Rightarrow> is_word x))"

text \<open>
  Greedy repetition: every way of repeating \<open>step\<close>, the longest first, as a backtracking
  matcher tries them. Each round has to consume something; \<open>fuel\<close> is the length of the
  remaining text, which bounds the number of rounds.
\<close>

primrec star_ends :: "(cursor \<Rightarrow> cursor list) \<Rightarrow> nat \<Rightarrow> cursor \<Rightarrow> cursor list" where
  "star_ends step 0 cur = [cur]"
| "star_ends step (Suc fuel) cur =
     concat (map (\<lambda>nxt. if length (snd nxt) < length (snd cur) then star_ends step fuel nxt else [])
                 (step cur)) @ [cur]"

text \<open>
  \<open>rmatch ic r cur\<close>: the positions at which a match of \<open>r\<close> that starts at \<open>cur\<close> can
  end, in the order in which Python's backtracking matcher tries them; \<open>ic\<close> is the flag
  \<open>re.IGNORECASE\<close>. The first element is the match \<open>re\<close> reports.
\<close>

fun rmatch :: "bool \<Rightarrow> rx \<Rightarrow> cursor \<Rightarrow> cursor list" where
  "rmatch ic Eps cur = [cur]"
| "rmatch ic (Chr c) cur = one (chr_eq ic c) cur"
| "rmatch ic Dot cur = one (\<lambda>x. x \<noteq> CHR 0x0A) cur"
| "rmatch ic Digit cur = one is_digit cur"
| "rmatch ic Space cur = one is_space cur"
| "rmatch ic (Range a b) cur = one (in_range ic a b) cur"
| "rmatch ic (OneOf cs) cur = one (\<lambda>x. list_ex (\<lambda>c. chr_eq ic c x) cs) cur"
| "rmatch ic WordB cur = (if at_boundary cur then [cur] else [])"
| "rmatch ic Eos cur = (if snd cur = [] \<or> snd cur = [CHR 0x0A] then [cur] else [])"
| "rmatch ic (Seq a b) cur = concat (map (\<lambda>mid. rmatch ic b mid) (rmatch ic a cur))"
| "rmatch ic (Alt a b) cur = rmatch ic a cur @ rmatch ic b cur"
| "rmatch ic (Opt a) cur = rmatch ic a cur @ [cur]"
| "rmatch ic (Star a) cur = star_ends (\<lambda>c. rmatch ic a c) (length (snd cur)) cur"
| "rmatch ic (Plus a) cur =
     concat (map (\<lambda>mid. star_ends (\<lambda>c. rmatch ic a c) (length (snd mid)) mid) (rmatch ic a cur))"

text \<open>\<open>pattern.search(s)\<close> as a truth value: some position of \<open>s\<close> starts a match.\<close>

fun re_search_from :: "bool \<Rightarrow> rx \<Rightarrow> cursor \<Rightarrow> bool" where
  "re_search_from ic r (prev, []) = (rmatch ic r (prev, []) \<noteq> [])"
| "re_search_from ic r (prev, x # xs) =
     (rmatch ic r (prev, x # xs) \<noteq> [] \<or> re_search_from ic r (Some x, xs))"

definition re_search :: "bool \<Rightarrow> rx \<Rightarrow> string \<Rightarrow> bool" where
  "re_search ic r s = re_search_from ic r (None, s)"

text \<open>
  The successive non-overlapping matches of \<open>finditer\<close>, \<open>findall\<close> and \<open>sub\<close>, scanning
  from the left: each is given by the text before it since the previous match, and its own
  text. \<open>scan\<close> returns them together with the text after the last match. After a match
  the scan resumes where the match ended. (A match of the empty string moves on by one
  character; none of the program's patterns matches the empty string.)
\<close>

function scan :: "bool \<Rightarrow> rx \<Rightarrow> cursor \<Rightarrow> string \<Rightarrow> (string \<times> string) list \<times> string" where
  "scan ic r (prev, rest) skipped =
     (case rmatch ic r (prev, rest) of
        [] \<Rightarrow>
          (case rest of
             [] \<Rightarrow> ([], rev skipped)
           | x # xs \<Rightarrow> scan ic r (Some x, xs) (x # skipped))
      | (prev', rest') # others \<Rightarrow>
          (if length rest' < length rest
           then (let found = take (length rest - length rest') rest;
                     (ms, tail) = scan ic r (prev', rest') []
                 in ((rev skipped, found) # ms, tail))
           else
             (case rest of
                [] \<Rightarrow> ([(rev skipped, [])], [])
              | x # xs \<Rightarrow>
                  (let (ms, tail) = scan ic r (Some x, xs) [x]
                   in ((rev skipped, []) # ms, tail)))))"
  by pat_completeness auto
termination
  by (relation "measure (\<lambda>(ic, r, cur, skipped). length (snd cur))") auto

text \<open>\<open>pattern.findall(s)\<close> for a pattern without capturing groups: the matched texts.\<close>

definition re_findall :: "bool \<Rightarrow> rx \<Rightarrow> string \<Rightarrow> string list" where
  "re_findall ic r s = map snd (fst (scan ic r (None, s) []))"

text \<open>\<open>pattern.sub(repl, s)\<close> for a replacement text without group references.\<close>

definition re_sub :: "bool \<Rightarrow> rx \<Rightarrow> string \<Rightarrow> string \<Rightarrow> string" where
  "re_sub ic r repl s =
     (let (ms, tail) = scan ic r (None, s) []
      in concat (map (\<lambda>(skipped, found). skipped @ repl) ms) @ tail)"

text \<open>\<open>pattern.split(s)\<close> for a pattern without capturing groups.\<close>

definition re_split :: "bool \<Rightarrow> rx \<Rightarrow> string \<Rightarrow> string list" where
  "re_split ic r s = (let (ms, tail) = scan ic r (None, s) [] in map fst ms @ [tail])"

text \<open>
  \<open>pattern.finditer(s)\<close>: for each match its \<open>start()\<close> offset in \<open>s\<close> and its text.
\<close>

fun match_offsets :: "nat \<Rightarrow> (string \<times> string) list \<Rightarrow> (nat \<times> string) list" where
  "match_offsets pos [] = []"
| "match_offsets pos ((skipped, found) # ms) =
     (pos + length skipped, found) # match_offsets (pos + length skipped + length found) ms"

definition re_finditer :: "bool \<Rightarrow> rx \<Rightarrow> string \<Rightarrow> (nat \<times> string) list" where
  "re_finditer ic r s = match_offsets 0 (fst (scan ic r (None, s) []))"

section \<open>Deterministic router (backend/router/deterministic\_router.py)\<close>

definition COMPLEXITY_KEYWORDS :: "string list" where
  "COMPLEXITY_KEYWORDS =
    [''compare'', ''comparison'', ''difference'', ''differences'', ''versus'', ''vs'',
     ''integrate'', ''integration'', ''configure'', ''configuration'', ''migrate'',
     ''migration'', ''troubleshoot'', ''troubleshooting'', ''architecture'',
     ''workflow'', ''optimize'', ''optimization'', ''analyze'', ''analysis'',
     ''strategy'', ''strategies'', ''compliance'', ''security'', ''audit'',
     ''enterprise'', ''scalability'', ''performance'', ''benchmark'', ''custom'',
     ''advanced'', ''multiple'', ''several'', ''complex'', ''detailed'', ''comprehensive'',
     ''explain how'', ''walk me through'', ''step by step'', ''in depth'']"

definition AMBIGUITY_MARKERS :: "string list" where
  "AMBIGUITY_MARKERS =
    [''it depends'', ''what if'', ''hypothetically'', ''in general'',
     ''is it possible'', ''can you explain'', ''could you elaborate'',
     ''what are the pros and cons'', ''trade-off'', ''tradeoff'',
     ''best practice'', ''best practices'', ''recommend'', ''recommendation'',
     ''should i'', ''which one'', ''what would'']"

definition COMPLAINT_MARKERS :: "string list" where
  "COMPLAINT_MARKERS =
    [''not working'', ''broken'', ''bug'', ''issue'', ''problem'', ''error'',
     ''frustrated'', ''disappointed'', ''unacceptable'', ''terrible'',
     ''worst'', ''angry'', ''complaint'', ''escalate'', ''refund'',
     ''cancel'', ''cancellation'', ''speak to manager'', ''supervisor'']"

text \<open>
  The seven comparison patterns, in the source's order:
  \<^verbatim>\<open>\bvs\.?\b\<close>, \<^verbatim>\<open>\bversus\b\<close>, \<^verbatim>\<open>\bcompared?\s+to\b\<close>,
  \<^verbatim>\<open>\bdifference\s+between\b\<close>, \<^verbatim>\<open>\bbetter\s+than\b\<close>, \<^verbatim>\<open>\bworse\s+than\b\<close>,
  \<^verbatim>\<open>\bor\b.*\bor\b\<close>.
\<close>

definition COMPARISON_PATTERNS :: "rx list" where
  "COMPARISON_PATTERNS =
    [seqs [WordB, lit ''vs'', Opt (Chr CHR ''.''), WordB],
     seqs [WordB, lit ''versus'', WordB],
     seqs [WordB, lit ''compare'', Opt (Chr CHR ''d''), Plus Space, lit ''to'', WordB],
     seqs [WordB, lit ''difference'', Plus Space, lit ''between'', WordB],
     seqs [WordB, lit ''better'', Plus Space, lit ''than'', WordB],
     seqs [WordB, lit ''worse'', Plus Space, lit ''than'', WordB],
     seqs [WordB, lit ''or'', WordB, Star Dot, WordB, lit ''or'', WordB]]"

text \<open>
  \<^verbatim>\<open>re.compile(r"\b" + re.escape(kw) + r"\b", re.IGNORECASE)\<close> for each keyword; the
  keywords consist of letters and spaces, which \<open>re.escape\<close> leaves as literals.
\<close>

definition COMPLEXITY_KEYWORD_RES :: "rx list" where
  "COMPLEXITY_KEYWORD_RES = map (\<lambda>kw. seqs [WordB, lit kw, WordB]) COMPLEXITY_KEYWORDS"

text \<open>\<^verbatim>\<open>[.?!](?:\s|$)\<close>, compiled without flags.\<close>

definition SENTENCE_END_RE :: rx where
  "SENTENCE_END_RE = Seq (OneOf ''.?!'') (Alt Space Eos)"

record features =
  word_count :: nat
  char_count :: nat
  question_count :: nat
  has_complexity_keywords :: bool
  has_ambiguity_markers :: bool
  has_complaint_markers :: bool
  has_comparison_pattern :: bool
  sentence_count :: nat

definition extract_features :: "string \<Rightarrow> features" where
  "extract_features query =
     (let query_lower = lower query in
      \<lparr>word_count = length (split_ws query_lower),
       char_count = length query,
       question_count = count_list query CHR ''?'',
       has_complexity_keywords = list_ex (\<lambda>pat. re_search True pat query_lower) COMPLEXITY_KEYWORD_RES,
       has_ambiguity_markers = list_ex (\<lambda>m. contains query_lower m) AMBIGUITY_MARKERS,
       has_complaint_markers = list_ex (\<lambda>m. contains query_lower m) COMPLAINT_MARKERS,
       has_comparison_pattern = list_ex (\<lambda>pat. re_search True pat query_lower) COMPARISON_PATTERNS,
       sentence_count = length (re_findall False SENTENCE_END_RE query)\<rparr>)"

text \<open>
  \<open>classify_query\<close>, node by node; \<open>complexity_score\<close> is the local variable of node 5,
  built by its four conditional increments.
\<close>

definition complexity_score :: "features \<Rightarrow> nat" where
  "complexity_score f =
     (let score = 0;
          score = (if has_complexity_keywords f then score + 2 else score);
          score = (if has_ambiguity_markers f then score + 2 else score);
          score = (if 40 < word_count f then score + 1 else score);
          score = (if 3 \<le> sentence_count f then score + 1 else score)
      in score)"

definition classify_query :: "string \<Rightarrow> string" where
  "classify_query query =
     (let f = extract_features query in
      if word_count f \<le> 3 \<and> question_count f \<le> 1 \<and> \<not> has_complexity_keywords f then ''simple''
      else if has_complaint_markers f then ''complex''
      else if 3 \<le> question_count f then ''complex''
      else if has_comparison_pattern f then ''complex''
      else if 2 \<le> complexity_score f then ''complex''
      else if 25 < word_count f \<and> has_ambiguity_markers f then ''complex''
      else ''simple'')"

subsection \<open>The decision tree as the specification words it\<close>

text \<open>
  Section 4.5 of the specification: six nodes tried in order, the first that applies
  decides; the score of node 5 is a sum of four weighted indicators.
\<close>

datatype node_verdict = Decides string | Passes

definition spec_score :: "features \<Rightarrow> nat" where
  "spec_score f =
     (if has_complexity_keywords f then 2 else 0) + (if has_ambiguity_markers f then 2 else 0)
     + (if word_count f > 40 then 1 else 0) + (if sentence_count f \<ge> 3 then 1 else 0)"

definition spec_nodes :: "(features \<Rightarrow> node_verdict) list" where
  "spec_nodes =
    [\<lambda>f. if word_count f \<le> 3 \<and> question_count f \<le> 1 \<and> \<not> has_complexity_keywords f
          then Decides ''simple'' else Passes,
     \<lambda>f. if has_complaint_markers f then Decides ''complex'' else Passes,
     \<lambda>f. if question_count f \<ge> 3 then Decides ''complex'' else Passes,
     \<lambda>f. if has_comparison_pattern f then Decides ''complex'' else Passes,
     \<lambda>f. if spec_score f \<ge> 2 then Decides ''complex'' else Passes,
     \<lambda>f. if word_count f > 25 \<and> has_ambiguity_markers f then Decides ''complex'' else Passes]"

fun first_match :: "(features \<Rightarrow> node_verdict) list \<Rightarrow> features \<Rightarrow> string" where
  "first_match [] f = ''simple''"
| "first_match (node # nodes) f =
     (case node f of Decides c \<Rightarrow> c | Passes \<Rightarrow> first_match nodes f)"

definition spec_decision_tree :: "features \<Rightarrow> string" where
  "spec_decision_tree f = first_match spec_nodes f"

section \<open>Output evaluator (backend/evaluator/output\_evaluator.py)\<close>

definition REFUSAL_PHRASES :: "string list" where
  "REFUSAL_PHRASES =
    [''i cannot'',
     ''i can'' @ [CHR 0x27] @ ''t'',
     ''i don'' @ [CHR 0x27] @ ''t have information'',
     ''i don'' @ [CHR 0x27] @ ''t have enough information'',
     ''i do not have'',
     ''i'' @ [CHR 0x27] @ ''m not sure'',
     ''i am not sure'',
     ''i'' @ [CHR 0x27] @ ''m unable to'',
     ''i am unable to'',
     ''outside my knowledge'',
     ''beyond my scope'',
     ''not able to help'',
     ''cannot assist with'',
     ''no information available'',
     ''unfortunately, i don'' @ [CHR 0x27] @ ''t'',
     ''i apologize, but i'',
     ''i'' @ [CHR 0x27] @ ''m sorry, but i don'' @ [CHR 0x27] @ ''t'']"

definition ALLOWED_TERMS :: "string list" where
  "ALLOWED_TERMS = [''Clearpath'', ''Clearpath Assistant'']"

text \<open>
  \<^verbatim>\<open>\$\d+(?:\.\d{2})?(?:\s*/\s*(?:month|year|mo|yr))?\<close>, compiled with \<open>re.IGNORECASE\<close>.
\<close>

definition PRICE_RE :: rx where
  "PRICE_RE =
     seqs [Chr CHR ''$'', Plus Digit,
           Opt (seqs [Chr CHR ''.'', Digit, Digit]),
           Opt (seqs [Star Space, Chr CHR ''/'', Star Space,
                      Alt (lit ''month'') (Alt (lit ''year'') (Alt (lit ''mo'') (lit ''yr'')))])]"

text \<open>\<^verbatim>\<open>\b[A-Z][a-z]+(?:\s+[A-Z][a-z]+)+\b\<close>, compiled without flags.\<close>

definition PROPER_NOUN_RE :: rx where
  "PROPER_NOUN_RE =
     seqs [WordB, Range CHR ''A'' CHR ''Z'', Plus (Range CHR ''a'' CHR ''z''),
           Plus (seqs [Plus Space, Range CHR ''A'' CHR ''Z'', Plus (Range CHR ''a'' CHR ''z'')]),
           WordB]"

definition extract_prices :: "string \<Rightarrow> string list" where
  "extract_prices text = re_findall True PRICE_RE text"

definition extract_proper_nouns :: "string \<Rightarrow> string list" where
  "extract_proper_nouns text = re_findall False PROPER_NOUN_RE text"

text \<open>
  A chunk as the evaluator receives it: a dict with the keys \<open>text\<close>, \<open>source_file\<close>,
  \<open>page_number\<close> and \<open>score\<close>, any of which may be missing.
\<close>

record chunk_dict =
  d_text :: "string option"
  d_source_file :: "string option"
  d_page_number :: "int option"
  d_score :: "real option"

text \<open>\<open>c.get("text", "")\<close>\<close>

definition get_text :: "chunk_dict \<Rightarrow> string" where
  "get_text c = (case d_text c of None \<Rightarrow> [] | Some t \<Rightarrow> t)"

definition check_hallucination :: "string \<Rightarrow> chunk_dict list \<Rightarrow> string option" where
  "check_hallucination response_text retrieved_chunks =
     (let chunk_text = join '' '' (map get_text retrieved_chunks);
          response_prices = extract_prices response_text;
          chunk_prices_set = set (extract_prices chunk_text)
      in if list_ex (\<lambda>price. price \<notin> chunk_prices_set) response_prices
         then Some ''potential_hallucination''
         else
           (let response_names = extract_proper_nouns response_text;
                chunk_names_set = set (extract_proper_nouns chunk_text)
            in if list_ex (\<lambda>name. name \<notin> chunk_names_set \<and> name \<notin> set ALLOWED_TERMS) response_names
               then Some ''potential_hallucination''
               else None))"

text \<open>
  The loop of check 2: the first phrase found in the lowered response appends the flag and
  breaks.
\<close>

fun refusal_loop :: "string list \<Rightarrow> string \<Rightarrow> string list \<Rightarrow> string list" where
  "refusal_loop [] response_lower flags = flags"
| "refusal_loop (phrase # phrases) response_lower flags =
     (if contains response_lower phrase then flags @ [''refusal_detected'']
      else refusal_loop phrases response_lower flags)"

definition evaluate_output :: "string \<Rightarrow> int \<Rightarrow> chunk_dict list \<Rightarrow> string list" where
  "evaluate_output response_text retrieval_count retrieved_chunks =
     (let flags = [];
          flags = (if retrieval_count = 0 then flags @ [''no_context_warning''] else flags);
          response_lower = lower response_text;
          flags = refusal_loop REFUSAL_PHRASES response_lower flags;
          hallucination_flag = check_hallucination response_text retrieved_chunks
      in case hallucination_flag of
           None \<Rightarrow> flags
         | Some flag \<Rightarrow> if flag \<noteq> [] then flags @ [flag] else flags)"

section \<open>Vector store (backend/rag/vector\_store.py)\<close>

text \<open>
  Scores and vector components are \<open>float32\<close>/\<open>float\<close> values in the program; they are
  modelled as real numbers, so rounding and NaN are outside the model.

  \<open>ChunkRecord\<close>: the dataclass, with the optional \<open>embedding\<close>. Field names carry the
  prefix \<open>rec_\<close>, those of the metadata dict returned by \<open>to_dict\<close> the prefix \<open>meta_\<close>.
\<close>

record ChunkRecord =
  rec_chunk_id :: string
  rec_text :: string
  rec_source_file :: string
  rec_page_number :: int
  rec_chunk_index :: int
  rec_embedding :: "real list option"

record metadata_dict =
  meta_chunk_id :: string
  meta_text :: string
  meta_source_file :: string
  meta_page_number :: int
  meta_chunk_index :: int

definition to_dict :: "ChunkRecord \<Rightarrow> metadata_dict" where
  "to_dict r =
     \<lparr>meta_chunk_id = rec_chunk_id r, meta_text = rec_text r,
      meta_source_file = rec_source_file r, meta_page_number = rec_page_number r,
      meta_chunk_index = rec_chunk_index r\<rparr>"

text \<open>
  A \<open>faiss.IndexFlatIP\<close>: its dimension \<open>d\<close> and the stored vectors in insertion order;
  the internal id of a vector is its position, \<open>ntotal\<close> their number.
\<close>

record faiss_index =
  index_d :: nat
  index_vectors :: "real list list"

definition ntotal :: "faiss_index \<Rightarrow> nat" where
  "ntotal idx = length (index_vectors idx)"

definition IndexFlatIP :: "nat \<Rightarrow> faiss_index" where
  "IndexFlatIP n = \<lparr>index_d = n, index_vectors = []\<rparr>"

text \<open>
  The two files of the index directory. A file is absent, holds a well-formed value, or
  is unreadable (truncated by a write that failed).
\<close>

datatype 'a stored = Absent | Unreadable | Holds 'a

record disk =
  faiss_file :: "faiss_index stored"
  pkl_file :: "metadata_dict list stored"

text \<open>The attributes of a \<open>VectorStore\<close> object.\<close>

record VectorStore =
  dimension :: nat
  index :: "faiss_index option"
  metadata :: "metadata_dict list"
  loaded :: bool

text \<open>\<open>VectorStore.__init__\<close>\<close>

definition new_store :: "nat \<Rightarrow> VectorStore" where
  "new_store n = \<lparr>dimension = n, index = None, metadata = [], loaded = False\<rparr>"

definition EMBEDDING_DIM :: nat where
  "EMBEDDING_DIM = 384"

type_synonym world = "VectorStore \<times> disk"

text \<open>
  The exceptions of the store's operations (and of ingestion): \<open>RuntimeError\<close> is the dimension mismatch of
  \<open>load\<close>; \<open>ReadError\<close> is what \<open>faiss.read_index\<close> or \<open>pickle.load\<close> raise on an
  unreadable file; \<open>ValueError\<close> is the dimension mismatch of \<open>add\<close>, or NumPy refusing
  rows of unequal shape; \<open>IndexError\<close> is an index out of range; \<open>OSError\<close> is a failed
  write; \<open>FaissError\<close> is an argument the FAISS index rejects; \<open>AttributeError\<close> is the use
  of \<open>_index\<close> while it is \<open>None\<close>.
\<close>

datatype py_error =
  RuntimeError | ReadError | ValueError | IndexError | OSError | FaissError | AttributeError

text \<open>
  Every operation returns its outcome (an exception or a value) together with the store
  and the disk as it leaves them.
\<close>

type_synonym 'a outcome = "(py_error + 'a) \<times> world"

definition load :: "world \<Rightarrow> unit outcome" where
  "load w =
     (let (s, dk) = w in
      if faiss_file dk \<noteq> Absent \<and> pkl_file dk \<noteq> Absent then
        (case faiss_file dk of
           Holds idx \<Rightarrow>
             if index_d idx \<noteq> dimension s then (Inl RuntimeError, w)
             else
               (case pkl_file dk of
                  Holds md \<Rightarrow> (Inr (), (s\<lparr>index := Some idx, metadata := md, loaded := True\<rparr>, dk))
                | _ \<Rightarrow> (Inl ReadError, w))
         | _ \<Rightarrow> (Inl ReadError, w))
      else
        (Inr (), (s\<lparr>index := Some (IndexFlatIP (dimension s)), metadata := [], loaded := True\<rparr>, dk)))"

definition ensure_loaded :: "world \<Rightarrow> unit outcome" where
  "ensure_loaded w = (if loaded (fst w) then (Inr (), w) else load w)"

text \<open>
  \<open>persist\<close> writes the two files in place, one after the other. Where a write can fail
  is given by a \<open>fault\<close>: creating the directory, opening \<open>index.faiss\<close> for writing,
  writing it (which leaves it truncated), opening \<open>index.pkl\<close> for writing, or
  \<open>pickle.dump\<close> (which leaves \<open>index.pkl\<close> truncated).
\<close>

datatype fault = NoFault | MakedirsFails | OpenIndexFails | WriteIndexFails | OpenPklFails | DumpFails

definition persist :: "fault \<Rightarrow> world \<Rightarrow> unit outcome" where
  "persist flt w =
     (case ensure_loaded w of
        (Inl e, w') \<Rightarrow> (Inl e, w')
      | (Inr u, (s, dk)) \<Rightarrow>
          if flt = MakedirsFails then (Inl OSError, (s, dk))
          else
            (case index s of
               None \<Rightarrow> (Inl AttributeError, (s, dk))
             | Some idx \<Rightarrow>
                 if flt = OpenIndexFails then (Inl OSError, (s, dk))
                 else if flt = WriteIndexFails then (Inl OSError, (s, dk\<lparr>faiss_file := Unreadable\<rparr>))
                 else
                   (let dk1 = dk\<lparr>faiss_file := Holds idx\<rparr> in
                    if flt = OpenPklFails then (Inl OSError, (s, dk1))
                    else if flt = DumpFails then (Inl OSError, (s, dk1\<lparr>pkl_file := Unreadable\<rparr>))
                    else (Inr (), (s, dk1\<lparr>pkl_file := Holds (metadata s)\<rparr>)))))"

text \<open>
  \<open>np.array([r.embedding for r in records], dtype=np.float32)\<close> followed by
  \<open>embeddings.shape[1]\<close>, for a non-empty list of records. Rows of one common length give
  a matrix, whose second dimension is returned with the rows. Embeddings that are all
  \<open>None\<close> give a one-dimensional array, on which \<open>shape[1]\<close> is out of range; rows of
  unequal length, or \<open>None\<close> among vectors, are refused by NumPy.
\<close>

definition embeddings_matrix :: "ChunkRecord list \<Rightarrow> py_error + (nat \<times> real list list)" where
  "embeddings_matrix records =
     (if list_all (\<lambda>r. rec_embedding r = None) records then Inl IndexError
      else if list_ex (\<lambda>r. rec_embedding r = None) records then Inl ValueError
      else
        (let rows = map (\<lambda>r. the (rec_embedding r)) records in
         if list_all (\<lambda>row. length row = length (hd rows)) rows
         then Inr (length (hd rows), rows)
         else Inl ValueError))"

definition add :: "ChunkRecord list \<Rightarrow> world \<Rightarrow> unit outcome" where
  "add records w =
     (case ensure_loaded w of
        (Inl e, w') \<Rightarrow> (Inl e, w')
      | (Inr u, (s, dk)) \<Rightarrow>
          if records = [] then (Inr (), (s, dk))
          else
            (case embeddings_matrix records of
               Inl e \<Rightarrow> (Inl e, (s, dk))
             | Inr (cols, embeddings) \<Rightarrow>
                 if cols \<noteq> dimension s then (Inl ValueError, (s, dk))
                 else
                   (case index s of
                      None \<Rightarrow> (Inl AttributeError, (s, dk))
                    | Some idx \<Rightarrow>
                        if cols \<noteq> index_d idx then (Inl FaissError, (s, dk))
                        else
                          (Inr (),
                           (s\<lparr>index := Some (idx\<lparr>index_vectors := index_vectors idx @ embeddings\<rparr>),
                              metadata := metadata s @ map to_dict records\<rparr>,
                            dk)))))"

text \<open>
  \<open>index.search(query, k)\<close> of the flat inner-product index: the \<open>k\<close> best ids by inner
  product with their scores, best first, filled up with the id \<open>-1\<close> when the index holds
  fewer than \<open>k\<close> vectors. (Among equal scores the lower id is put first here; FAISS does
  not fix that order.)
\<close>

definition inner_product :: "real list \<Rightarrow> real list \<Rightarrow> real" where
  "inner_product u v = sum_list (map (\<lambda>(a, b). a * b) (zip u v))"

definition faiss_search :: "faiss_index \<Rightarrow> real list \<Rightarrow> nat \<Rightarrow> (real \<times> int) list" where
  "faiss_search idx query k =
     (let scored = map (\<lambda>(i, v). (inner_product query v, int i))
                       (zip [0 ..< ntotal idx] (index_vectors idx));
          best = take k (sort_key (\<lambda>(score, i). - score) scored)
      in best @ replicate (k - length best) (0, - 1))"

text \<open>A search result: the metadata dict with the added key \<open>score\<close>.\<close>

record result_dict = metadata_dict +
  res_score :: real

definition with_score :: "metadata_dict \<Rightarrow> real \<Rightarrow> result_dict" where
  "with_score m sc = metadata_dict.extend m \<lparr>res_score = sc\<rparr>"

text \<open>
  The loop of \<open>search\<close> over the pairs of score and id: the id \<open>-1\<close> is skipped,
  \<open>self._metadata[idx]\<close> raises when \<open>idx\<close> is beyond the sidecar.
\<close>

fun collect_results :: "metadata_dict list \<Rightarrow> (real \<times> int) list \<Rightarrow> py_error + result_dict list" where
  "collect_results md [] = Inr []"
| "collect_results md ((score, idx) # rest) =
     (if idx = - 1 then collect_results md rest
      else if 0 \<le> idx \<and> nat idx < length md then
        (case collect_results md rest of
           Inl e \<Rightarrow> Inl e
         | Inr results \<Rightarrow> Inr (with_score (md ! nat idx) score # results))
      else Inl IndexError)"

definition search :: "real list \<Rightarrow> nat \<Rightarrow> world \<Rightarrow> result_dict list outcome" where
  "search query_embedding k w =
     (case ensure_loaded w of
        (Inl e, w') \<Rightarrow> (Inl e, w')
      | (Inr u, (s, dk)) \<Rightarrow>
          (case index s of
             None \<Rightarrow> (Inl AttributeError, (s, dk))
           | Some idx \<Rightarrow>
               if ntotal idx = 0 then (Inr [], (s, dk))
               else if length query_embedding \<noteq> index_d idx \<or> k = 0 then (Inl FaissError, (s, dk))
               else
                 (case collect_results (metadata s) (faiss_search idx query_embedding k) of
                    Inl e \<Rightarrow> (Inl e, (s, dk))
                  | Inr results \<Rightarrow> (Inr results, (s, dk)))))"

text \<open>
  Sequences of operations on one store. Each operation runs to its end (returning or
  raising) before the next one starts.
\<close>

datatype store_op =
    Load
  | Add "ChunkRecord list"
  | Search "real list" nat
  | Persist fault

fun step :: "store_op \<Rightarrow> world \<Rightarrow> world" where
  "step Load w = snd (load w)"
| "step (Add records) w = snd (add records w)"
| "step (Search q k) w = snd (search q k w)"
| "step (Persist flt) w = snd (persist flt w)"





definition no_files :: disk where
  "no_files = \<lparr>faiss_file = Absent, pkl_file = Absent\<rparr>"


text \<open>The record's embedding is a vector of \<open>n\<close> components.\<close>

definition has_dimension :: "nat \<Rightarrow> ChunkRecord \<Rightarrow> bool" where
  "has_dimension n r = (case rec_embedding r of None \<Rightarrow> False | Some v \<Rightarrow> length v = n)"



section \<open>Retriever (backend/rag/retriever.py)\<close>

text \<open>The dataclass \<open>RetrievedChunk\<close>; its fields carry the prefix \<open>rc_\<close>.\<close>

record RetrievedChunk =
  rc_text :: string
  rc_source_file :: string
  rc_page_number :: int
  rc_score :: real

text \<open>
  \<open>_jaccard_similarity\<close>. The program divides two machine integers in floating point and
  compares the quotient with the literal \<open>0.80\<close>; the quotient of two character counts
  is either exactly four fifths or further from it than any rounding error, so the
  comparison is the one on the exact fraction.
\<close>

definition jaccard_similarity :: "string \<Rightarrow> string \<Rightarrow> real" where
  "jaccard_similarity a b =
     (let set_a = set a; set_b = set b; union = set_a \<union> set_b
      in if union = {} then 0 else real (card (set_a \<inter> set_b)) / real (card union))"

text \<open>
  The inner loop of \<open>deduplicate\<close> over the accepted chunks: at the first accepted chunk
  that is too similar, the candidate's four fields overwrite it when the candidate's
  score is higher, and the loop breaks with \<open>is_duplicate\<close> set. The result is the flag
  and the accepted list as the loop leaves it.
\<close>

fun dedup_scan :: "RetrievedChunk \<Rightarrow> RetrievedChunk list \<Rightarrow> bool \<times> RetrievedChunk list" where
  "dedup_scan candidate [] = (False, [])"
| "dedup_scan candidate (existing # others) =
     (if jaccard_similarity (rc_text candidate) (rc_text existing) > 0.80
      then (True,
            (if rc_score candidate > rc_score existing
             then existing\<lparr>rc_text := rc_text candidate, rc_score := rc_score candidate,
                            rc_source_file := rc_source_file candidate,
                            rc_page_number := rc_page_number candidate\<rparr>
             else existing) # others)
      else (let (is_duplicate, others') = dedup_scan candidate others
            in (is_duplicate, existing # others')))"

fun dedup_loop :: "RetrievedChunk list \<Rightarrow> RetrievedChunk list \<Rightarrow> RetrievedChunk list" where
  "dedup_loop [] accepted = accepted"
| "dedup_loop (candidate # chunks) accepted =
     (let (is_duplicate, accepted') = dedup_scan candidate accepted
      in dedup_loop chunks (if \<not> is_duplicate then accepted' @ [candidate] else accepted'))"

text \<open>
  \<open>deduplicate\<close>, on a list of distinct objects (the program overwrites an accepted
  object in place; the objects \<open>retrieve\<close> passes are freshly made).
\<close>

definition deduplicate :: "RetrievedChunk list \<Rightarrow> RetrievedChunk list" where
  "deduplicate chunks = (if chunks = [] then [] else dedup_loop chunks [])"

text \<open>No two entries of the list have texts of similarity above 0.80.\<close>

definition dissimilar :: "RetrievedChunk list \<Rightarrow> bool" where
  "dissimilar xs =
     (\<forall>i < length xs. \<forall>j < length xs. i \<noteq> j \<longrightarrow>
        jaccard_similarity (rc_text (xs ! i)) (rc_text (xs ! j)) \<le> 0.80)"

text \<open>
  \<open>_extract_filename_keywords\<close>: \<^verbatim>\<open>re.sub(r"\.pdf$", "", source_file, flags=re.IGNORECASE)\<close>,
  then \<^verbatim>\<open>re.split(r"[_\-.\s]+", stem)\<close>, keeping the lowered tokens of length at least 3.
\<close>

definition extract_filename_keywords :: "string \<Rightarrow> string list" where
  "extract_filename_keywords source_file =
     (let stem = re_sub True (seqs [Chr CHR ''.'', lit ''pdf'', Eos]) [] source_file;
          tokens = re_split False (Plus (Alt (OneOf ''_-.'') Space)) stem
      in map lower (filter (\<lambda>t. 3 \<le> length t) tokens))"

text \<open>
  \<open>_apply_reranking_boost\<close>: one boost of 0.05 for a chunk one of whose filename
  keywords occurs in the lowered query, then the stable sort by descending score.
\<close>

definition boost :: "string \<Rightarrow> RetrievedChunk \<Rightarrow> RetrievedChunk" where
  "boost query_lower chunk =
     (if list_ex (\<lambda>kw. contains query_lower kw) (extract_filename_keywords (rc_source_file chunk))
      then chunk\<lparr>rc_score := rc_score chunk + 0.05\<rparr>
      else chunk)"

definition apply_reranking_boost :: "RetrievedChunk list \<Rightarrow> string \<Rightarrow> RetrievedChunk list" where
  "apply_reranking_boost chunks query_lower =
     sort_key (\<lambda>c. - rc_score c) (map (boost query_lower) chunks)"

definition TOP_K :: nat where
  "TOP_K = 5"

definition SIMILARITY_THRESHOLD :: real where
  "SIMILARITY_THRESHOLD = 0.35"

definition as_chunk :: "result_dict \<Rightarrow> RetrievedChunk" where
  "as_chunk res =
     \<lparr>rc_text = meta_text res, rc_source_file = meta_source_file res,
      rc_page_number = meta_page_number res, rc_score = res_score res\<rparr>"

text \<open>
  \<open>retrieve\<close>. The embedding model is outside the repository: \<open>encode\<close> is the function
  \<open>embedder.encode\<close> computes on a single text.
\<close>

definition retrieve ::
  "(string \<Rightarrow> real list) \<Rightarrow> string \<Rightarrow> nat \<Rightarrow> real \<Rightarrow> world \<Rightarrow> RetrievedChunk list outcome" where
  "retrieve encode query k threshold w =
     (let query_embedding = encode query in
      case search query_embedding k w of
        (Inl e, w') \<Rightarrow> (Inl e, w')
      | (Inr raw_results, w') \<Rightarrow>
          (let retrieved = map as_chunk (filter (\<lambda>res. \<not> res_score res < threshold) raw_results);
               query_lower = lower query;
               retrieved = apply_reranking_boost retrieved query_lower;
               retrieved = deduplicate retrieved
           in (Inr retrieved, w')))"

section \<open>Token counting (backend/utils/token\_counter.py)\<close>

text \<open>
  The tokenizer of the embedding model is outside the repository: where it could be
  loaded it is a pair of an \<open>encode\<close> and a \<open>decode\<close> function, and \<open>None\<close> stands for
  the fallback on words. In the fallback \<open>int(len(words) / 0.75)\<close> is the integer
  quotient of \<open>4 * len(words)\<close> by 3, and \<open>int(n * 0.75)\<close> that of \<open>3 * n\<close> by 4.
\<close>

type_synonym tokenizer = "(string \<Rightarrow> nat list) \<times> (nat list \<Rightarrow> string)"

definition count_tokens :: "tokenizer option \<Rightarrow> string \<Rightarrow> nat" where
  "count_tokens tk text =
     (if text = [] then 0
      else case tk of
        Some (encode, decode) \<Rightarrow> length (encode text)
      | None \<Rightarrow> (4 * length (split_ws text)) div 3)"

definition get_last_n_tokens :: "tokenizer option \<Rightarrow> string \<Rightarrow> nat \<Rightarrow> string" where
  "get_last_n_tokens tk text n =
     (if text = [] \<or> n = 0 then []
      else case tk of
        Some (encode, decode) \<Rightarrow>
          (let token_ids = encode text in decode (drop (length token_ids - n) token_ids))
      | None \<Rightarrow>
          (let words = split_ws text; word_count = max 1 ((3 * n) div 4)
           in join '' '' (drop (length words - word_count) words)))"

section \<open>Ingestion (backend/rag/ingestion.py, backend/utils/text\_sanitizer.py)\<close>

definition newline :: char where
  "newline = CHR 0x0A"

definition SEPARATORS :: "string list" where
  "SEPARATORS = [[newline, newline], [newline], ''. '', '' '']"

definition CHUNK_SIZE :: nat where
  "CHUNK_SIZE = 512"

definition CHUNK_OVERLAP :: nat where
  "CHUNK_OVERLAP = 64"

text \<open>\<^verbatim>\<open>\[PAGE_BREAK:(\d+)\]\<close>\<close>

definition PAGE_BREAK_PATTERN :: rx where
  "PAGE_BREAK_PATTERN = seqs [lit ''[PAGE_BREAK:'', Plus Digit, Chr CHR '']'']"

text \<open>
  \<open>sanitize_pdf_text\<close>: drop NUL and the control characters other than tab, line feed
  and carriage return (\<^verbatim>\<open>[^\x09\x0A\x0D\x20-\x7E\x80-\xFF]\<close>), replace \<^verbatim>\<open>[ \t]+\<close> by one
  space and \<^verbatim>\<open>\n{3,}\<close> by two line feeds, and strip.
\<close>

definition printable :: "char \<Rightarrow> bool" where
  "printable c =
     (code c = 9 \<or> code c = 10 \<or> code c = 13 \<or> (32 \<le> code c \<and> code c \<le> 126)
      \<or> (128 \<le> code c \<and> code c \<le> 255))"

definition sanitize_pdf_text :: "string \<Rightarrow> string" where
  "sanitize_pdf_text text =
     (if text = [] then []
      else
        (let text = filter (\<lambda>c. c \<noteq> CHR 0x00) text;
             text = filter printable text;
             text = re_sub False (Plus (OneOf [CHR '' '', CHR 0x09])) '' '' text;
             text = re_sub False (seqs [Chr newline, Chr newline, Chr newline, Star (Chr newline)])
                      [newline, newline] text
         in strip text))"

text \<open>
  What PyMuPDF makes of the file: it cannot be opened, or it has pages, each with the
  text \<open>get_text("text")\<close> extracts from it.
\<close>

datatype pdf = Unopenable | Pages "string list"

text \<open>The loop of \<open>extract_text_from_pdf\<close> over \<open>page_num\<close>, from \<open>page_num\<close> on.\<close>

fun annotate_pages :: "nat \<Rightarrow> string list \<Rightarrow> string" where
  "annotate_pages page_num [] = []"
| "annotate_pages page_num (page_text # rest) =
     sanitize_pdf_text page_text @ [newline] @ ''[PAGE_BREAK:'' @ str_of_nat (page_num + 1) @ '']''
       @ [newline] @ annotate_pages (Suc page_num) rest"

definition extract_text_from_pdf :: "pdf \<Rightarrow> py_error + (string \<times> nat)" where
  "extract_text_from_pdf doc =
     (case doc of
        Unopenable \<Rightarrow> Inl RuntimeError
      | Pages pages \<Rightarrow>
          (let total_pages = length pages;
               full_text = annotate_pages 0 pages;
               stripped = strip (re_sub False PAGE_BREAK_PATTERN [] full_text)
           in if stripped = [] then Inl ValueError else Inr (full_text, total_pages)))"

text \<open>
  The loop of \<open>_recursive_split\<close> over the segments, with the list \<open>chunks\<close> and the buffer
  \<open>current\<close>; \<open>recurse\<close> is the recursive call on the remaining separators.
\<close>

fun split_loop ::
  "tokenizer option \<Rightarrow> (string \<Rightarrow> string list) \<Rightarrow> string \<Rightarrow> string list \<Rightarrow> string list \<Rightarrow> string
     \<Rightarrow> string list \<times> string" where
  "split_loop tk recurse sep [] chunks current = (chunks, current)"
| "split_loop tk recurse sep (segment # segments) chunks current =
     (let candidate = (if current = [] then segment else current @ sep @ segment) in
      if count_tokens tk candidate > CHUNK_SIZE then
        (if current \<noteq> [] then
           (let overlap_text = get_last_n_tokens tk current CHUNK_OVERLAP in
            split_loop tk recurse sep segments (chunks @ [current])
              (if overlap_text \<noteq> [] then overlap_text @ sep @ segment else segment))
         else
           (let sub_chunks = recurse segment in
            split_loop tk recurse sep segments (chunks @ butlast sub_chunks)
              (if sub_chunks \<noteq> [] then last sub_chunks else [])))
      else split_loop tk recurse sep segments chunks candidate)"

fun recursive_split :: "tokenizer option \<Rightarrow> string \<Rightarrow> string list \<Rightarrow> string list" where
  "recursive_split tk text [] =
     (if count_tokens tk text \<le> CHUNK_SIZE then [text]
      else
        (let words = split_ws text; mid = max 1 (length words div 2)
         in [join '' '' (take mid words), join '' '' (drop mid words)]))"
| "recursive_split tk text (sep # remaining_seps) =
     (if count_tokens tk text \<le> CHUNK_SIZE then [text]
      else if \<not> contains text sep then recursive_split tk text remaining_seps
      else
        (let segments = split_sep text sep;
             (chunks, current) =
               split_loop tk (\<lambda>segment. recursive_split tk segment remaining_seps) sep segments [] []
         in if current \<noteq> [] then chunks @ [current] else chunks))"

text \<open>
  \<open>_build_page_map\<close>: for every match of the marker pattern its offset and the number
  written in it (the marker without its 12 leading characters and its closing bracket).
\<close>

definition build_page_map :: "string \<Rightarrow> (nat \<times> nat) list" where
  "build_page_map full_text =
     sort_key fst
       (map (\<lambda>(start, marker). (start, int_of_digits (butlast (drop 12 marker))))
            (re_finditer False PAGE_BREAK_PATTERN full_text))"

fun lookup_loop :: "nat \<Rightarrow> nat \<Rightarrow> (nat \<times> nat) list \<Rightarrow> nat" where
  "lookup_loop page char_offset [] = page"
| "lookup_loop page char_offset ((marker_offset, marker_page) # rest) =
     (if marker_offset \<le> char_offset then lookup_loop marker_page char_offset rest else page)"

definition lookup_page :: "nat \<Rightarrow> (nat \<times> nat) list \<Rightarrow> nat" where
  "lookup_page char_offset page_map = lookup_loop 1 char_offset page_map"

text \<open>
  \<open>int(idx / max(len(clean_text), 1) * len(full_text))\<close>, in exact arithmetic (the
  program computes it in floating point).
\<close>

definition approx_full_offset :: "nat \<Rightarrow> nat \<Rightarrow> nat \<Rightarrow> nat" where
  "approx_full_offset idx clean_len full_len =
     nat \<lfloor>real idx / real (max clean_len 1) * real full_len\<rfloor>"

text \<open>
  The loop of \<open>chunk_text\<close> over the raw chunks, with \<open>search_start\<close>; a result entry is
  the pair of the keys \<open>text\<close> and \<open>page_number\<close>.
\<close>

fun assign_pages ::
  "string \<Rightarrow> string \<Rightarrow> (nat \<times> nat) list \<Rightarrow> nat \<Rightarrow> string list \<Rightarrow> (string \<times> nat) list" where
  "assign_pages full_text clean_text page_map search_start [] = []"
| "assign_pages full_text clean_text page_map search_start (content # rest) =
     (if strip content = [] then assign_pages full_text clean_text page_map search_start rest
      else
        (let idx = (case find clean_text content search_start of
                      None \<Rightarrow> find clean_text content 0
                    | Some i \<Rightarrow> Some i)
         in case idx of
              Some i \<Rightarrow>
                (strip content,
                 lookup_page (approx_full_offset i (length clean_text) (length full_text)) page_map)
                # assign_pages full_text clean_text page_map (i + length content) rest
            | None \<Rightarrow>
                (strip content, 1) # assign_pages full_text clean_text page_map search_start rest))"

definition chunk_text :: "tokenizer option \<Rightarrow> string \<Rightarrow> (string \<times> nat) list" where
  "chunk_text tk full_text =
     (let page_map = build_page_map full_text;
          clean_text = re_sub False PAGE_BREAK_PATTERN [] full_text;
          raw_chunks = recursive_split tk clean_text SEPARATORS
      in assign_pages full_text clean_text page_map 0 raw_chunks)"

text \<open>
  \<open>ingest_pdf\<close>. Outside the repository are the tokenizer \<open>tk\<close>, the embedding model
  (\<open>encode_batch\<close> is what \<open>embedder.encode\<close> returns for a list of texts, row by row) and
  \<open>uuid.uuid4\<close> (\<open>new_id i\<close> is the identifier drawn for the \<open>i\<close>-th record); \<open>filename\<close> is
  the base name of the path, \<open>flt\<close> the fault of the final \<open>persist\<close>.
\<close>

definition build_records ::
  "(nat \<Rightarrow> string) \<Rightarrow> string \<Rightarrow> (string \<times> nat) list \<Rightarrow> real list list \<Rightarrow> ChunkRecord list" where
  "build_records new_id filename chunks_meta embeddings =
     map (\<lambda>(i, (text, page_number), emb).
            \<lparr>rec_chunk_id = new_id i, rec_text = text, rec_source_file = filename,
             rec_page_number = int page_number, rec_chunk_index = int i,
             rec_embedding = Some emb\<rparr>)
         (zip [0 ..< length chunks_meta] (zip chunks_meta embeddings))"

definition ingest_pdf ::
  "tokenizer option \<Rightarrow> (string list \<Rightarrow> real list list) \<Rightarrow> (nat \<Rightarrow> string) \<Rightarrow> fault
     \<Rightarrow> string \<Rightarrow> pdf \<Rightarrow> world \<Rightarrow> ChunkRecord list outcome" where
  "ingest_pdf tk encode_batch new_id flt filename doc w =
     (case extract_text_from_pdf doc of
        Inl e \<Rightarrow> (Inl e, w)
      | Inr (full_text, total_pages) \<Rightarrow>
          (let chunks_meta = chunk_text tk full_text in
           if chunks_meta = [] then (Inl ValueError, w)
           else
             (let texts = map fst chunks_meta;
                  embeddings = encode_batch texts;
                  records = build_records new_id filename chunks_meta embeddings
              in case add records w of
                   (Inl e, w') \<Rightarrow> (Inl e, w')
                 | (Inr u, w1) \<Rightarrow>
                     (case persist flt w1 of
                        (Inl e, w') \<Rightarrow> (Inl e, w')
                      | (Inr u', w2) \<Rightarrow> (Inr records, w2)))))"

section \<open>Generation client: bounded retry (backend/llm/groq\_client.py)\<close>

text \<open>
  The exceptions the SDK call can raise, as far as \<open>generate\<close> tells them apart.
  \<open>BadRequestError\<close> is the SDK's subclass of \<open>APIStatusError\<close> with status 400;
  \<open>APIStatusError c\<close> stands for every other status error, with its \<open>status_code\<close>;
  \<open>APITimeoutError\<close> and \<open>APIConnectionError\<close> carry no status code;
  \<open>OtherException\<close> is anything outside the SDK's hierarchy.
\<close>

datatype api_exception =
    BadRequestError
  | APIStatusError nat
  | APITimeoutError
  | APIConnectionError
  | OtherException

datatype 'r api_outcome = Returns 'r | Raises api_exception

text \<open>
  What \<open>generate\<close> raises: an exception of the SDK re-raised as it is, or the builtin
  \<open>ConnectionError\<close> whose message is built from \<open>last_exception\<close>.
\<close>

datatype generate_error =
    Reraised api_exception
  | ConnectionError "api_exception option"

definition MAX_RETRIES :: nat where
  "MAX_RETRIES = 2"

definition BACKOFF_DELAYS :: "nat list" where
  "BACKOFF_DELAYS = [1, 3]"

text \<open>\<open>getattr(exc, "status_code", None)\<close>.\<close>

fun status_code :: "api_exception \<Rightarrow> nat option" where
  "status_code BadRequestError = Some 400"
| "status_code (APIStatusError c) = Some c"
| "status_code APITimeoutError = None"
| "status_code APIConnectionError = None"
| "status_code OtherException = None"

text \<open>Membership in the tuple of the second \<open>except\<close> clause.\<close>

fun in_api_error_clause :: "api_exception \<Rightarrow> bool" where
  "in_api_error_clause BadRequestError = True"
| "in_api_error_clause (APIStatusError c) = True"
| "in_api_error_clause APITimeoutError = True"
| "in_api_error_clause APIConnectionError = True"
| "in_api_error_clause OtherException = False"

text \<open>
  The observable effects of one \<open>generate\<close> call: the local \<open>last_exception\<close>, the number
  of calls made to \<open>chat.completions.create\<close>, and the arguments of \<open>time.sleep\<close> in order.
\<close>

record gen_state =
  last_exception :: "api_exception option"
  calls :: nat
  slept :: "nat list"

definition gen_init :: gen_state where
  "gen_init = \<lparr>last_exception = None, calls = 0, slept = []\<rparr>"

text \<open>
  The \<open>for attempt in range(_MAX_RETRIES + 1)\<close> loop. The environment is \<open>api\<close>: the
  outcome of the \<open>n\<close>-th call of the SDK (counted from 0). Falling out of the loop reaches
  the final \<open>raise ConnectionError(...)\<close>.
\<close>

fun generate_loop ::
  "(nat \<Rightarrow> 'r api_outcome) \<Rightarrow> nat list \<Rightarrow> gen_state \<Rightarrow> (generate_error + 'r) \<times> gen_state" where
  "generate_loop api [] st = (Inl (ConnectionError (last_exception st)), st)"
| "generate_loop api (attempt # rest) st =
     (let st1 = st\<lparr>calls := calls st + 1\<rparr> in
      case api (calls st) of
        Returns response \<Rightarrow> (Inr response, st1)
      | Raises exc \<Rightarrow>
          if exc = BadRequestError then (Inl (Reraised exc), st1)
          else if in_api_error_clause exc then
            (let st2 = st1\<lparr>last_exception := Some exc\<rparr> in
             if (case status_code exc of None \<Rightarrow> False | Some c \<Rightarrow> 400 \<le> c \<and> c < 500)
             then (Inl (Reraised exc), st2)
             else if attempt < MAX_RETRIES
             then generate_loop api rest (st2\<lparr>slept := slept st2 @ [BACKOFF_DELAYS ! attempt]\<rparr>)
             else generate_loop api rest st2)
          else (Inl (Reraised exc), st1))"

definition generate :: "(nat \<Rightarrow> 'r api_outcome) \<Rightarrow> (generate_error + 'r) \<times> gen_state" where
  "generate api = generate_loop api [0 ..< MAX_RETRIES + 1] gen_init"

text \<open>The two classes of failure the specification names.\<close>

fun retriable :: "api_exception \<Rightarrow> bool" where
  "retriable APITimeoutError = True"
| "retriable APIConnectionError = True"
| "retriable (APIStatusError c) = (500 \<le> c \<and> c < 600)"
| "retriable BadRequestError = False"
| "retriable OtherException = False"

fun client_error :: "api_exception \<Rightarrow> bool" where
  "client_error BadRequestError = True"
| "client_error (APIStatusError c) = (400 \<le> c \<and> c < 500)"
| "client_error APITimeoutError = False"
| "client_error APIConnectionError = False"
| "client_error OtherException = False"

definition fails_retriably :: "(nat \<Rightarrow> 'r api_outcome) \<Rightarrow> nat \<Rightarrow> bool" where
  "fails_retriably api i = (case api i of Returns r \<Rightarrow> False | Raises e \<Rightarrow> retriable e)"

section \<open>Example data\<close>

text \<open>A unit vector of the embedding dimension, and records that carry it.\<close>

definition unit_vector :: "real list" where
  "unit_vector = 1 # replicate 383 0"

definition example_record :: "nat \<Rightarrow> ChunkRecord" where
  "example_record i =
     \<lparr>rec_chunk_id = ''chunk-'' @ str_of_nat i, rec_text = ''Hello Clearpath world.'',
      rec_source_file = ''test.pdf'', rec_page_number = 1, rec_chunk_index = int i,
      rec_embedding = Some unit_vector\<rparr>"

text \<open>A loaded store with one vector, over files that hold the empty index.\<close>

definition one_chunk_world :: world where
  "one_chunk_world =
     (\<lparr>dimension = 384,
       index = Some \<lparr>index_d = 384, index_vectors = [unit_vector]\<rparr>,
       metadata = [to_dict (example_record 0)],
       loaded = True\<rparr>,
      \<lparr>faiss_file = Holds (IndexFlatIP 384), pkl_file = Holds []\<rparr>)"



text \<open>
  Three chunks whose character sets are ten letters, and those ten with two more each:
  the first two are not similar to each other, the third is similar to both.
\<close>

definition chunk_kl :: RetrievedChunk where
  "chunk_kl = \<lparr>rc_text = ''abcdefghijkl'', rc_source_file = ''a.pdf'', rc_page_number = 1,
               rc_score = 0.5\<rparr>"

definition chunk_mn :: RetrievedChunk where
  "chunk_mn = \<lparr>rc_text = ''abcdefghijmn'', rc_source_file = ''b.pdf'', rc_page_number = 2,
               rc_score = 0.9\<rparr>"

definition chunk_j :: RetrievedChunk where
  "chunk_j = \<lparr>rc_text = ''abcdefghij'', rc_source_file = ''c.pdf'', rc_page_number = 3,
              rc_score = 0.6\<rparr>"

text \<open>
  A loaded store of dimension 2 with three chunks, and an embedding model that maps every
  query to the first unit vector, so that the scores are 0.6, 0.8 and 12/37 (which is below 0.35, and above 0.30).
\<close>

definition retrieval_world :: world where
  "retrieval_world =
     (\<lparr>dimension = 2,
       index = Some \<lparr>index_d = 2, index_vectors = [[0.6, 0.8], [0.8, 0.6], [12 / 37, 35 / 37]]\<rparr>,
       metadata =
         [\<lparr>meta_chunk_id = ''c0'', meta_text = ''The Pro plan costs $49/month.'',
           meta_source_file = ''pricing_guide.pdf'', meta_page_number = 3, meta_chunk_index = 0\<rparr>,
          \<lparr>meta_chunk_id = ''c1'', meta_text = ''Frequently asked questions'',
           meta_source_file = ''faq.pdf'', meta_page_number = 1, meta_chunk_index = 0\<rparr>,
          \<lparr>meta_chunk_id = ''c2'', meta_text = ''Release notes for version 2'',
           meta_source_file = ''pricing_history.pdf'', meta_page_number = 7, meta_chunk_index = 1\<rparr>],
       loaded = True\<rparr>,
      no_files)"

definition first_axis :: "string \<Rightarrow> real list" where
  "first_axis query = [1, 0]"

text \<open>
  A one-page document whose own text starts with the characters of a page marker; an
  embedding model that returns the unit vector for every text; identifiers numbered in
  the order they are drawn.
\<close>

definition marker_page_pdf :: pdf where
  "marker_page_pdf = Pages [''[PAGE_BREAK:0] Hello Clearpath world.'']"

definition unit_embedder :: "string list \<Rightarrow> real list list" where
  "unit_embedder texts = map (\<lambda>t. unit_vector) texts"

definition numbered_id :: "nat \<Rightarrow> string" where
  "numbered_id i = ''chunk-'' @ str_of_nat i"

section \<open>Properties\<close>

subsection \<open>Router\<close>

lemma complexity_score_eq: "complexity_score f = spec_score f"
  by (simp add: complexity_score_def spec_score_def Let_def)

text \<open>
  Claim C1. \<open>classify_query\<close> computes the first-match six-node decision tree of the
  specification over the extracted features, and its result is one of the two (distinct)
  classes \<open>simple\<close> and \<open>complex\<close>.
\<close>

theorem classify_query_decision_tree:
  "classify_query query = spec_decision_tree (extract_features query)
   \<and> (classify_query query = ''simple'' \<or> classify_query query = ''complex'')
   \<and> ''simple'' \<noteq> ''complex''"
  by (simp add: classify_query_def spec_decision_tree_def spec_nodes_def complexity_score_eq Let_def)

text \<open>Scenarios S1 and S3 of the specification, run through the model.\<close>

lemma scenario_S1: "classify_query ''What is Clearpath?'' = ''simple''"
  by code_simp

lemma scenario_S3: "classify_query ''Pro vs Enterprise plan comparison'' = ''complex''"
  by code_simp

subsection \<open>Evaluator\<close>

lemma contains_iff: "contains s sub \<longleftrightarrow> (\<exists>ps ss. s = ps @ sub @ ss)"
proof (induction s)
  case Nil
  then show ?case by auto
next
  case (Cons c cs)
  show ?case
  proof
    assume "contains (c # cs) sub"
    then consider "prefix sub (c # cs)" | "contains cs sub" by auto
    then show "\<exists>ps ss. c # cs = ps @ sub @ ss"
    proof cases
      case 1
      then obtain ss where "c # cs = sub @ ss" by (auto simp: prefix_def)
      then have "c # cs = [] @ sub @ ss" by simp
      then show ?thesis by blast
    next
      case 2
      with Cons obtain ps ss where "cs = ps @ sub @ ss" by blast
      then have "c # cs = (c # ps) @ sub @ ss" by simp
      then show ?thesis by blast
    qed
  next
    assume "\<exists>ps ss. c # cs = ps @ sub @ ss"
    then obtain ps ss where e: "c # cs = ps @ sub @ ss" by blast
    show "contains (c # cs) sub"
    proof (cases ps)
      case Nil
      with e have "prefix sub (c # cs)" by (metis append_Nil prefixI)
      then show ?thesis by simp
    next
      case (Cons p ps')
      with e have "cs = ps' @ sub @ ss" by simp
      with Cons.IH show ?thesis by auto
    qed
  qed
qed

lemma refusal_loop_cases:
  "refusal_loop ps r flags = flags \<or> refusal_loop ps r flags = flags @ [''refusal_detected'']"
  by (induction ps) auto

lemma refusal_loop_hit:
  "p \<in> set ps \<Longrightarrow> contains r p \<Longrightarrow> refusal_loop ps r flags = flags @ [''refusal_detected'']"
  by (induction ps) auto

lemma check_hallucination_cases:
  "check_hallucination r cs = None \<or> check_hallucination r cs = Some ''potential_hallucination''"
  by (simp add: check_hallucination_def Let_def)

lemma lower_refusal_phrases: "map lower REFUSAL_PHRASES = REFUSAL_PHRASES"
  by (simp add: REFUSAL_PHRASES_def lower_def lower_char_def upper_letters_def lower_letters_def)

lemma lower_phrase: "p \<in> set REFUSAL_PHRASES \<Longrightarrow> lower p = p"
proof -
  assume "p \<in> set REFUSAL_PHRASES"
  moreover have "map lower REFUSAL_PHRASES = map (\<lambda>x. x) REFUSAL_PHRASES"
    using lower_refusal_phrases by simp
  ultimately show ?thesis
    by (simp only: map_eq_conv)
qed


lemma evaluate_output_eq:
  "evaluate_output r n cs =
     refusal_loop REFUSAL_PHRASES (lower r) (if n = 0 then [''no_context_warning''] else [])
     @ (case check_hallucination r cs of None \<Rightarrow> [] | Some f \<Rightarrow> if f \<noteq> [] then [f] else [])"
  by (simp add: evaluate_output_def Let_def split: option.splits)

lemma evaluate_output_shape:
  "\<exists>a b c. evaluate_output r n cs = a @ b @ c
     \<and> a = (if n = 0 then [''no_context_warning''] else [])
     \<and> (b = [] \<or> b = [''refusal_detected''])
     \<and> (c = [] \<or> c = [''potential_hallucination''])"
proof -
  let ?a = "if n = 0 then [''no_context_warning''] else []"
  let ?c = "case check_hallucination r cs of None \<Rightarrow> [] | Some f \<Rightarrow> if f \<noteq> [] then [f] else []"
  obtain b where b: "refusal_loop REFUSAL_PHRASES (lower r) ?a = ?a @ b"
      "b = [] \<or> b = [''refusal_detected'']"
    using refusal_loop_cases [of REFUSAL_PHRASES "lower r" ?a] by auto
  have c: "?c = [] \<or> ?c = [''potential_hallucination'']"
    using check_hallucination_cases [of r cs] by auto
  have "evaluate_output r n cs = ?a @ b @ ?c"
    by (simp only: evaluate_output_eq b(1) append_assoc)
  with b(2) c show ?thesis by blast
qed

text \<open>
  Claim C8. There are 17 refusal phrases; for each phrase \<open>p\<close> and any single chunk, the
  flags of the response \<open>"prefix " + p + " suffix"\<close> with retrieval count 1 contain
  \<open>refusal_detected\<close> exactly once; and no response at all gets the flag twice.
\<close>

theorem refusal_flag_exactly_once:
  "length REFUSAL_PHRASES = 17
   \<and> (\<forall>p \<in> set REFUSAL_PHRASES.
        count_list (evaluate_output (''prefix '' @ p @ '' suffix'') 1 [chunk]) ''refusal_detected'' = 1)
   \<and> (\<forall>response n chunks.
        count_list (evaluate_output response n chunks) ''refusal_detected'' \<le> 1)"
proof (intro conjI ballI allI)
  show "length REFUSAL_PHRASES = 17"
    by (simp add: REFUSAL_PHRASES_def)
next
  fix p assume p: "p \<in> set REFUSAL_PHRASES"
  let ?r = "''prefix '' @ p @ '' suffix''"
  have "lower ?r = ''prefix '' @ p @ '' suffix''"
    using lower_phrase [OF p]
    by (simp add: lower_def lower_char_def upper_letters_def lower_letters_def)
  then have "contains (lower ?r) p"
    unfolding contains_iff by blast
  then have hit: "refusal_loop REFUSAL_PHRASES (lower ?r) [] = [''refusal_detected'']"
    using refusal_loop_hit [OF p, of "lower ?r" "[]"] by simp
  have "evaluate_output ?r 1 [chunk] = [''refusal_detected'']
      \<or> evaluate_output ?r 1 [chunk] = [''refusal_detected'', ''potential_hallucination'']"
    using check_hallucination_cases [of ?r "[chunk]"] hit
    by (auto simp add: evaluate_output_eq simp del: append.simps)
  then show "count_list (evaluate_output ?r 1 [chunk]) ''refusal_detected'' = 1"
    by auto
next
  fix response n chunks
  from evaluate_output_shape [of response n chunks]
  obtain a b c where e: "evaluate_output response n chunks = a @ b @ c"
    and a: "a = [] \<or> a = [''no_context_warning'']"
    and b: "b = [] \<or> b = [''refusal_detected'']"
    and c: "c = [] \<or> c = [''potential_hallucination'']"
    by (metis (full_types))
  from a b c show "count_list (evaluate_output response n chunks) ''refusal_detected'' \<le> 1"
    unfolding e by (elim disjE) simp_all
qed

text \<open>Witness for C8: the first phrase, with a chunk about prices.\<close>

theorem refusal_flag_exactly_once_witness:
  "''i cannot'' \<in> set REFUSAL_PHRASES
   \<and> count_list (evaluate_output ''prefix i cannot suffix'' 1
        [\<lparr>d_text = Some ''The Pro plan costs $49/month.'', d_source_file = Some ''pricing.pdf'',
          d_page_number = Some 1, d_score = Some 0.9\<rparr>]) ''refusal_detected'' = 1"
proof -
  have m: "''i cannot'' \<in> set REFUSAL_PHRASES"
    by (simp add: REFUSAL_PHRASES_def)
  from refusal_flag_exactly_once [THEN conjunct2, THEN conjunct1, rule_format, OF m]
  show ?thesis using m by simp
qed

text \<open>
  Claim C10. The flag list is a subsequence of
  \<open>[no_context_warning, refusal_detected, potential_hallucination]\<close>: only these three
  strings occur, each at most once, in this relative order.
\<close>

theorem evaluate_output_flags_ordered:
  "subseq (evaluate_output response n chunks)
      [''no_context_warning'', ''refusal_detected'', ''potential_hallucination'']
   \<and> distinct (evaluate_output response n chunks)
   \<and> set (evaluate_output response n chunks)
        \<subseteq> {''no_context_warning'', ''refusal_detected'', ''potential_hallucination''}"
proof -
  from evaluate_output_shape [of response n chunks]
  obtain a b c where e: "evaluate_output response n chunks = a @ b @ c"
    and a: "a = [] \<or> a = [''no_context_warning'']"
    and b: "b = [] \<or> b = [''refusal_detected'']"
    and c: "c = [] \<or> c = [''potential_hallucination'']"
    by (metis (full_types))
  from a b c show ?thesis
    unfolding e by (elim disjE) simp_all
qed

text \<open>Scenario S5 of the specification: a price that the chunks do not mention.\<close>

lemma scenario_S5:
  "evaluate_output ''The Pro plan costs $99/month'' 1
     [\<lparr>d_text = Some ''The Pro plan costs $49/month and includes 5 users.'',
       d_source_file = Some ''pricing_guide.pdf'', d_page_number = Some 3, d_score = Some 0.72\<rparr>]
   = [''potential_hallucination'']"
  by code_simp

subsection \<open>Vector store\<close>

lemma ensure_loaded_loaded: "loaded (fst w) \<Longrightarrow> ensure_loaded w = (Inr (), w)"
  by (simp add: ensure_loaded_def)






lemma embeddings_matrix_ok:
  assumes "embeddings_matrix records = Inr (cols, rows)" "records \<noteq> []"
  shows "rows = map (\<lambda>r. the (rec_embedding r)) records \<and> list_all (has_dimension cols) records"
proof -
  from assms(1) have none: "\<not> list_ex (\<lambda>r. rec_embedding r = None) records"
    by (auto simp: embeddings_matrix_def Let_def split: if_splits)
  with assms(1) have rows: "rows = map (\<lambda>r. the (rec_embedding r)) records"
    and all: "list_all (\<lambda>row. length row = cols) rows"
    by (auto simp: embeddings_matrix_def Let_def split: if_splits)
  have "has_dimension cols r" if "r \<in> set records" for r
  proof -
    from none that obtain v where v: "rec_embedding r = Some v"
      by (auto simp: list_ex_iff)
    from all rows that have "length (the (rec_embedding r)) = cols"
      by (auto simp: list_all_iff)
    with v show ?thesis by (simp add: has_dimension_def)
  qed
  with rows show ?thesis by (simp add: list_all_iff)
qed














subsection \<open>Vector store: the claims\<close>








text \<open>
  Claim C9, as stated, fails: \<open>add([])\<close> first calls \<open>_ensure_loaded\<close>. On a fresh store
  over an index file of dimension 128 it raises the \<open>RuntimeError\<close> of \<open>load\<close>; on a fresh
  store over a one-vector index it returns with the sidecar filled from the file.
\<close>

theorem add_empty_counterexample:
  "fst (add [] (new_store EMBEDDING_DIM,
                \<lparr>faiss_file = Holds (IndexFlatIP 128), pkl_file = Holds []\<rparr>)) = Inl RuntimeError
   \<and> metadata (new_store EMBEDDING_DIM) = []
   \<and> metadata (fst (snd (add [] (new_store EMBEDDING_DIM,
        \<lparr>faiss_file = Holds \<lparr>index_d = 384, index_vectors = [unit_vector]\<rparr>,
         pkl_file = Holds [to_dict (example_record 0)]\<rparr>))))
       = [to_dict (example_record 0)]"
  by (simp add: add_def ensure_loaded_def load_def new_store_def EMBEDDING_DIM_def IndexFlatIP_def)

text \<open>
  Claim C9, amended. \<open>add([])\<close> does what \<open>_ensure_loaded\<close> does and nothing more; on a
  store that is already loaded it returns normally and leaves store and files as they
  were.
\<close>

theorem add_empty_noop:
  "add [] w = ensure_loaded w \<and> (loaded (fst w) \<longrightarrow> add [] w = (Inr (), w))"
  by (cases "ensure_loaded w")
     (auto simp: add_def ensure_loaded_def split: sum.splits prod.splits)

text \<open>Witness for the amended C9: the loaded store with one chunk.\<close>

theorem add_empty_noop_witness:
  "loaded (fst one_chunk_world) \<and> add [] one_chunk_world = (Inr (), one_chunk_world)"
proof -
  have l: "loaded (fst one_chunk_world)" by (simp add: one_chunk_world_def)
  with add_empty_noop [of one_chunk_world] show ?thesis by blast
qed




subsection \<open>Retriever\<close>

lemma dedup_scan_subset:
  "dedup_scan c acc = (d, acc') \<Longrightarrow> set acc' \<subseteq> insert c (set acc)"
proof (induction acc arbitrary: d acc')
  case Nil
  then show ?case by simp
next
  case (Cons ex others)
  show ?case
  proof (cases "jaccard_similarity (rc_text c) (rc_text ex) > 0.80")
    case True
    have "ex\<lparr>rc_text := rc_text c, rc_score := rc_score c, rc_source_file := rc_source_file c,
             rc_page_number := rc_page_number c\<rparr> = c"
      by (cases ex, cases c) simp
    with True Cons.prems show ?thesis by (auto split: if_splits)
  next
    case False
    obtain d0 o0 where s: "dedup_scan c others = (d0, o0)" by (cases "dedup_scan c others")
    from Cons.IH [OF s] False Cons.prems s show ?thesis by auto
  qed
qed

lemma dedup_loop_subset: "set (dedup_loop chunks acc) \<subseteq> set chunks \<union> set acc"
proof (induction chunks arbitrary: acc)
  case Nil
  then show ?case by simp
next
  case (Cons c chunks)
  obtain d acc' where s: "dedup_scan c acc = (d, acc')" by (cases "dedup_scan c acc")
  from dedup_scan_subset [OF s] Cons.IH [of "if \<not> d then acc' @ [c] else acc'"] s
  show ?case by (auto split: if_splits)
qed

lemma deduplicate_subset: "set (deduplicate chunks) \<subseteq> set chunks"
  using dedup_loop_subset [of chunks "[]"] by (simp add: deduplicate_def)

lemma boost_fields:
  "rc_text (boost q c) = rc_text c \<and> rc_source_file (boost q c) = rc_source_file c
   \<and> rc_page_number (boost q c) = rc_page_number c
   \<and> (rc_score (boost q c) = rc_score c \<or> rc_score (boost q c) = rc_score c + 0.05)"
  by (simp add: boost_def)


text \<open>
  Claim C6. Every chunk that \<open>retrieve\<close> returns is a search result whose own score is
  not below the threshold, with its text, file and page, and with its score either
  unchanged or raised by the boost of 0.05.
\<close>

theorem retrieve_threshold:
  "retrieve encode query k threshold w = (Inr chunks, w') \<longrightarrow>
     (\<exists>raw_results. search (encode query) k w = (Inr raw_results, w') \<and>
        (\<forall>c \<in> set chunks. \<exists>res \<in> set raw_results.
            threshold \<le> res_score res
            \<and> rc_text c = meta_text res \<and> rc_source_file c = meta_source_file res
            \<and> rc_page_number c = meta_page_number res
            \<and> (rc_score c = res_score res \<or> rc_score c = res_score res + 0.05)))"
proof
  assume r: "retrieve encode query k threshold w = (Inr chunks, w')"
  obtain out w1 where s: "search (encode query) k w = (out, w1)"
    by (cases "search (encode query) k w")
  with r obtain raw where out: "out = Inr raw"
    by (cases out) (auto simp: retrieve_def)
  let ?kept = "filter (\<lambda>res. \<not> res_score res < threshold) raw"
  from r s out have w: "w1 = w'"
    and chunks: "chunks = deduplicate (apply_reranking_boost (map as_chunk ?kept) (lower query))"
    by (auto simp: retrieve_def Let_def)
  have "\<exists>res \<in> set raw. threshold \<le> res_score res
            \<and> rc_text c = meta_text res \<and> rc_source_file c = meta_source_file res
            \<and> rc_page_number c = meta_page_number res
            \<and> (rc_score c = res_score res \<or> rc_score c = res_score res + 0.05)"
    if "c \<in> set chunks" for c
  proof -
    from that chunks deduplicate_subset
    have "c \<in> set (apply_reranking_boost (map as_chunk ?kept) (lower query))" by blast
    then obtain res where res: "res \<in> set ?kept" "c = boost (lower query) (as_chunk res)"
      by (auto simp: apply_reranking_boost_def)
    from res(1) have "res \<in> set raw" "threshold \<le> res_score res" by auto
    moreover from res(2) boost_fields [of "lower query" "as_chunk res"]
    have "rc_text c = meta_text res \<and> rc_source_file c = meta_source_file res
            \<and> rc_page_number c = meta_page_number res
            \<and> (rc_score c = res_score res \<or> rc_score c = res_score res + 0.05)"
      by (simp add: as_chunk_def)
    ultimately show ?thesis by blast
  qed
  with s out w show "\<exists>raw_results. search (encode query) k w = (Inr raw_results, w') \<and>
        (\<forall>c \<in> set chunks. \<exists>res \<in> set raw_results.
            threshold \<le> res_score res
            \<and> rc_text c = meta_text res \<and> rc_source_file c = meta_source_file res
            \<and> rc_page_number c = meta_page_number res
            \<and> (rc_score c = res_score res \<or> rc_score c = res_score res + 0.05))"
    by blast
qed


text \<open>
  Witness for C6: of the three search results the one with score 12/37 is dropped although
  its file name matches the query; the boosted chunk had the score 0.6 before.
\<close>

theorem retrieve_threshold_witness:
  "retrieve first_axis ''what is the pricing?'' TOP_K SIMILARITY_THRESHOLD retrieval_world
     = (Inr [\<lparr>rc_text = ''Frequently asked questions'', rc_source_file = ''faq.pdf'',
               rc_page_number = 1, rc_score = 0.8\<rparr>,
             \<lparr>rc_text = ''The Pro plan costs $49/month.'', rc_source_file = ''pricing_guide.pdf'',
               rc_page_number = 3, rc_score = 0.65\<rparr>],
        retrieval_world)
   \<and> (\<exists>raw_results.
         search (first_axis ''what is the pricing?'') TOP_K retrieval_world
           = (Inr raw_results, retrieval_world)
         \<and> (\<forall>c \<in> set [\<lparr>rc_text = ''Frequently asked questions'', rc_source_file = ''faq.pdf'',
                            rc_page_number = 1, rc_score = 0.8\<rparr>,
                          \<lparr>rc_text = ''The Pro plan costs $49/month.'',
                            rc_source_file = ''pricing_guide.pdf'',
                            rc_page_number = 3, rc_score = 0.65\<rparr>].
              \<exists>res \<in> set raw_results.
                SIMILARITY_THRESHOLD \<le> res_score res
                \<and> rc_text c = meta_text res \<and> rc_source_file c = meta_source_file res
                \<and> rc_page_number c = meta_page_number res
                \<and> (rc_score c = res_score res \<or> rc_score c = res_score res + 0.05)))"
proof -
  have e: "retrieve first_axis ''what is the pricing?'' TOP_K SIMILARITY_THRESHOLD retrieval_world
     = (Inr [\<lparr>rc_text = ''Frequently asked questions'', rc_source_file = ''faq.pdf'',
               rc_page_number = 1, rc_score = 0.8\<rparr>,
             \<lparr>rc_text = ''The Pro plan costs $49/month.'', rc_source_file = ''pricing_guide.pdf'',
               rc_page_number = 3, rc_score = 0.65\<rparr>],
        retrieval_world)"
    by code_simp
  from retrieve_threshold [THEN mp, OF e] e show ?thesis by (rule_tac conjI)
qed

text \<open>
  Claim C3 against the code. The docstring of \<open>deduplicate\<close> promises a result without a
  pair of more than 80 per cent overlap. On the three example chunks the third, which is
  similar to both others, overwrites the first (it has the higher score) and ends up next
  to the second: the result holds two texts of similarity 5/6, neither of which was
  score-replaced into the other. The similarity of two empty texts is 0.
\<close>

theorem deduplicate_leaves_near_duplicates:
  "deduplicate [chunk_kl, chunk_mn, chunk_j] = [chunk_j, chunk_mn]
   \<and> jaccard_similarity (rc_text chunk_j) (rc_text chunk_mn) = 5 / 6
   \<and> (0.80 :: real) < 5 / 6
   \<and> jaccard_similarity (rc_text chunk_kl) (rc_text chunk_mn) = 5 / 7
   \<and> jaccard_similarity [] [] = 0"
  by code_simp

text \<open>
  On a list sorted by descending score, which is what \<open>retrieve\<close> passes, no accepted
  chunk is ever overwritten and the result has no two similar texts.
\<close>

lemma jaccard_sym: "jaccard_similarity a b = jaccard_similarity b a"
  by (simp add: jaccard_similarity_def Let_def Int_commute Un_commute)

lemma dedup_scan_sorted:
  assumes "\<forall>ex \<in> set acc. rc_score c \<le> rc_score ex"
  shows "dedup_scan c acc =
     (list_ex (\<lambda>ex. jaccard_similarity (rc_text c) (rc_text ex) > 0.80) acc, acc)"
  using assms by (induction acc) auto

lemma dissimilar_snoc:
  assumes "dissimilar acc" "\<forall>ex \<in> set acc. jaccard_similarity (rc_text c) (rc_text ex) \<le> 0.80"
  shows "dissimilar (acc @ [c])"
  unfolding dissimilar_def
proof (intro allI impI)
  fix i j assume i: "i < length (acc @ [c])" and j: "j < length (acc @ [c])" and ne: "i \<noteq> j"
  consider "i < length acc" "j < length acc" | "i < length acc" "j = length acc"
    | "i = length acc" "j < length acc"
    using i j ne by (auto simp: less_Suc_eq)
  then show "jaccard_similarity (rc_text ((acc @ [c]) ! i)) (rc_text ((acc @ [c]) ! j)) \<le> 0.80"
  proof cases
    case 1
    with assms(1) ne show ?thesis by (simp add: dissimilar_def nth_append)
  next
    case 2
    with assms(2) show ?thesis by (simp add: nth_append jaccard_sym [of _ "rc_text c"])
  next
    case 3
    with assms(2) show ?thesis by (simp add: nth_append)
  qed
qed

lemma dedup_loop_sorted:
  assumes "sorted_wrt (\<lambda>a b. rc_score b \<le> rc_score a) chunks"
    "\<forall>ex \<in> set acc. \<forall>c \<in> set chunks. rc_score c \<le> rc_score ex"
    "dissimilar acc"
  shows "dissimilar (dedup_loop chunks acc)"
  using assms
proof (induction chunks arbitrary: acc)
  case Nil
  then show ?case by simp
next
  case (Cons c chunks)
  from Cons.prems(2) have "\<forall>ex \<in> set acc. rc_score c \<le> rc_score ex" by simp
  note scan = dedup_scan_sorted [OF this]
  let ?dup = "list_ex (\<lambda>ex. jaccard_similarity (rc_text c) (rc_text ex) > 0.80) acc"
  show ?case
  proof (cases ?dup)
    case True
    with scan have "dedup_loop (c # chunks) acc = dedup_loop chunks acc" by simp
    moreover from Cons.prems have "dissimilar (dedup_loop chunks acc)"
      by (intro Cons.IH) auto
    ultimately show ?thesis by simp
  next
    case False
    with scan have eq: "dedup_loop (c # chunks) acc = dedup_loop chunks (acc @ [c])" by simp
    from False have "\<forall>ex \<in> set acc. jaccard_similarity (rc_text c) (rc_text ex) \<le> 0.80"
      by (auto simp: list_ex_iff not_less)
    with Cons.prems(3) have "dissimilar (acc @ [c])" by (rule dissimilar_snoc)
    moreover from Cons.prems have "\<forall>ex \<in> set (acc @ [c]). \<forall>c' \<in> set chunks. rc_score c' \<le> rc_score ex"
      by auto
    moreover from Cons.prems(1) have "sorted_wrt (\<lambda>a b. rc_score b \<le> rc_score a) chunks" by simp
    ultimately have "dissimilar (dedup_loop chunks (acc @ [c]))" by (intro Cons.IH)
    with eq show ?thesis by simp
  qed
qed

lemma deduplicate_sorted:
  "sorted_wrt (\<lambda>a b. rc_score b \<le> rc_score a) chunks \<Longrightarrow> dissimilar (deduplicate chunks)"
  using dedup_loop_sorted [of chunks "[]"]
  by (simp add: deduplicate_def dissimilar_def)


lemma reranked_sorted:
  "sorted_wrt (\<lambda>a b. rc_score b \<le> rc_score a) (apply_reranking_boost chunks q)"
proof -
  have "sorted (map (\<lambda>c. - rc_score c) (apply_reranking_boost chunks q))"
    by (simp add: apply_reranking_boost_def)
  then show ?thesis
    by (simp add: sorted_map sorted_wrt_iff_nth_less)
qed

lemma retrieve_dissimilar:
  "retrieve encode query k threshold w = (Inr chunks, w') \<Longrightarrow> dissimilar chunks"
  by (auto simp: retrieve_def Let_def split: prod.splits sum.splits
      intro!: deduplicate_sorted reranked_sorted)

text \<open>Scenario S6 of the specification: the boost moves the pricing chunk to the front.\<close>

lemma scenario_S6:
  "apply_reranking_boost
     [\<lparr>rc_text = ''Frequently asked questions'', rc_source_file = ''faq.pdf'',
       rc_page_number = 1, rc_score = 0.42\<rparr>,
      \<lparr>rc_text = ''The Pro plan costs $49/month.'', rc_source_file = ''pricing_guide.pdf'',
       rc_page_number = 3, rc_score = 0.40\<rparr>]
     (lower ''what is the pricing?'')
   = [\<lparr>rc_text = ''The Pro plan costs $49/month.'', rc_source_file = ''pricing_guide.pdf'',
       rc_page_number = 3, rc_score = 0.45\<rparr>,
      \<lparr>rc_text = ''Frequently asked questions'', rc_source_file = ''faq.pdf'',
       rc_page_number = 1, rc_score = 0.42\<rparr>]"
  by code_simp

subsection \<open>Ingestion\<close>

text \<open>
  Claim C7 against the code. The page text of the example document contains the
  characters \<open>[PAGE_BREAK:0]\<close>; \<open>_build_page_map\<close> reads them as a marker of page 0 at
  offset 0, and the only chunk of the successfully ingested document gets the page
  number 0.
\<close>

theorem ingest_pdf_page_zero:
  "extract_text_from_pdf marker_page_pdf
     = Inr (''[PAGE_BREAK:0] Hello Clearpath world.'' @ [newline] @ ''[PAGE_BREAK:1]'' @ [newline], 1)
   \<and> build_page_map (''[PAGE_BREAK:0] Hello Clearpath world.'' @ [newline] @ ''[PAGE_BREAK:1]'' @ [newline])
     = [(0, 0), (38, 1)]
   \<and> fst (ingest_pdf None unit_embedder numbered_id NoFault ''doc.pdf'' marker_page_pdf
            (new_store EMBEDDING_DIM, no_files))
     = Inr [\<lparr>rec_chunk_id = ''chunk-0'', rec_text = ''Hello Clearpath world.'',
             rec_source_file = ''doc.pdf'', rec_page_number = 0, rec_chunk_index = 0,
             rec_embedding = Some unit_vector\<rparr>]"
  by code_simp


text \<open>
  The other two parts of C7 hold for every successful ingestion: the \<open>chunk_index\<close>
  values are \<open>0, 1, ..., n - 1\<close> in order, and every embedding has the dimension of the
  store (\<open>add\<close> would have raised otherwise). The page number is at least 1 whenever every
  marker found in the annotated text carries a number that is at least 1.
\<close>

lemma build_records_index:
  "map rec_chunk_index (build_records new_id filename cm embs)
     = map int [0 ..< length (build_records new_id filename cm embs)]"
proof -
  let ?z = "zip [0 ..< length cm] (zip cm embs)"
  have len: "length ?z = min (length cm) (length embs)" by simp
  have "map rec_chunk_index (build_records new_id filename cm embs) = map (\<lambda>p. int (fst p)) ?z"
    by (simp add: build_records_def split_def)
  also have "\<dots> = map int (map fst ?z)" by simp
  also have "map fst ?z = take (length (zip cm embs)) [0 ..< length cm]"
    by (simp add: map_fst_zip_take)
  also have "\<dots> = [0 ..< min (length cm) (length embs)]"
    by (simp add: take_upt min_def)
  finally show ?thesis by (simp add: build_records_def)
qed

lemma add_success_dimension:
  assumes "add records w = (Inr u, w')" "records \<noteq> []"
  shows "list_all (has_dimension (dimension (fst w))) records"
proof -
  obtain r w0 where el: "ensure_loaded w = (r, w0)" by (cases "ensure_loaded w")
  have d: "dimension (fst w0) = dimension (fst w)"
    using el by (cases w) (auto simp: ensure_loaded_def load_def Let_def split: if_splits stored.splits)
  obtain s dk where w0: "w0 = (s, dk)" by (cases w0)
  from assms el w0 obtain cols rows where m: "embeddings_matrix records = Inr (cols, rows)"
    and c: "cols = dimension s"
    by (auto simp: add_def split: sum.splits if_splits option.splits)
  from embeddings_matrix_ok [OF m assms(2)] c d w0 show ?thesis by simp
qed

lemma lookup_loop_bound:
  "1 \<le> page \<Longrightarrow> \<forall>(off, p) \<in> set page_map. 1 \<le> p \<Longrightarrow> 1 \<le> lookup_loop page char_offset page_map"
  by (induction page_map arbitrary: page) auto

lemma assign_pages_bound:
  "\<forall>(off, p) \<in> set page_map. 1 \<le> p \<Longrightarrow>
     \<forall>(tx, page) \<in> set (assign_pages full_text clean_text page_map start raw). 1 \<le> page"
proof (induction raw arbitrary: start)
  case Nil
  then show ?case by simp
next
  case (Cons content rest)
  from Cons.prems have l: "1 \<le> lookup_page off page_map" for off
    unfolding lookup_page_def by (intro lookup_loop_bound) auto
  from Cons.IH [OF Cons.prems] l show ?case
    by (auto simp: Let_def split: option.splits)
qed

lemma ingest_pdf_records:
  assumes "ingest_pdf tk encode_batch new_id flt filename doc w = (Inr records, w')"
  shows "map rec_chunk_index records = map int [0 ..< length records]"
    and "list_all (has_dimension (dimension (fst w))) records"
    and "\<exists>full_text total_pages. extract_text_from_pdf doc = Inr (full_text, total_pages) \<and>
          ((\<forall>(off, p) \<in> set (build_page_map full_text). 1 \<le> p) \<longrightarrow>
             (\<forall>r \<in> set records. 1 \<le> rec_page_number r))"
proof -
  from assms obtain full_text total_pages where
    ex: "extract_text_from_pdf doc = Inr (full_text, total_pages)"
    by (auto simp: ingest_pdf_def split: sum.splits)
  let ?cm = "chunk_text tk full_text"
  let ?recs = "build_records new_id filename ?cm (encode_batch (map fst ?cm))"
  from assms ex obtain u w1 where a: "add ?recs w = (Inr u, w1)" and r: "records = ?recs"
    by (auto simp: ingest_pdf_def Let_def split: sum.splits if_splits prod.splits)
  show "map rec_chunk_index records = map int [0 ..< length records]"
    unfolding r by (rule build_records_index)
  show "list_all (has_dimension (dimension (fst w))) records"
  proof (cases "records = []")
    case True
    then show ?thesis by simp
  next
    case False
    with a r show ?thesis by (auto intro: add_success_dimension)
  qed
  have "\<forall>r \<in> set records. 1 \<le> rec_page_number r"
    if pm: "\<forall>(off, p) \<in> set (build_page_map full_text). 1 \<le> p"
  proof
    fix rc assume "rc \<in> set records"
    then obtain i tx page emb where
      "(i, (tx, page), emb) \<in> set (zip [0 ..< length ?cm] (zip ?cm (encode_batch (map fst ?cm))))"
      and rc: "rec_page_number rc = int page"
      unfolding r build_records_def by auto
    then have "(tx, page) \<in> set ?cm"
      by (meson in_set_zipE)
    then have "(tx, page) \<in> set (assign_pages full_text (re_sub False PAGE_BREAK_PATTERN [] full_text)
        (build_page_map full_text) 0
        (recursive_split tk (re_sub False PAGE_BREAK_PATTERN [] full_text) SEPARATORS))"
      by (simp add: chunk_text_def Let_def)
    with assign_pages_bound [OF pm, of full_text "re_sub False PAGE_BREAK_PATTERN [] full_text" 0
        "recursive_split tk (re_sub False PAGE_BREAK_PATTERN [] full_text) SEPARATORS"]
    have "1 \<le> page" by blast
    with rc show "1 \<le> rec_page_number rc" by simp
  qed
  with ex show "\<exists>full_text total_pages. extract_text_from_pdf doc = Inr (full_text, total_pages) \<and>
          ((\<forall>(off, p) \<in> set (build_page_map full_text). 1 \<le> p) \<longrightarrow>
             (\<forall>r \<in> set records. 1 \<le> rec_page_number r))"
    by blast
qed

subsection \<open>Generation client\<close>

lemma generate_unfold: "generate api = generate_loop api [0, 1, 2] gen_init"
proof -
  have "[0 ..< MAX_RETRIES + 1] = [0, 1, 2]"
    by (simp add: MAX_RETRIES_def upt_rec)
  then show ?thesis
    by (simp only: generate_def)
qed

lemma retriable_step:
  assumes "api n = Raises e" "retriable e"
  shows "generate_loop api (a # rest) \<lparr>last_exception = l, calls = n, slept = sl\<rparr> =
    generate_loop api rest
      \<lparr>last_exception = Some e, calls = Suc n,
       slept = (if a < 2 then sl @ [[1, 3] ! a] else sl)\<rparr>"
  using assms by (cases e) (auto simp: Let_def MAX_RETRIES_def BACKOFF_DELAYS_def)

lemma client_step:
  assumes "api n = Raises e" "client_error e"
  shows "\<exists>l'. generate_loop api (a # rest) \<lparr>last_exception = l, calls = n, slept = sl\<rparr> =
    (Inl (Reraised e), \<lparr>last_exception = l', calls = Suc n, slept = sl\<rparr>)"
  using assms by (cases e) (auto simp: Let_def)

lemma fails_retriablyD:
  "fails_retriably api i \<Longrightarrow> \<exists>e. api i = Raises e \<and> retriable e"
  by (auto simp: fails_retriably_def split: api_outcome.splits)

text \<open>
  Claim C5. When each of the three calls fails with a retriable error (timeout, connection
  failure or 5xx status), \<open>generate\<close> makes exactly three calls, sleeps 1 s and then 3 s
  between them, and raises \<open>ConnectionError\<close> built from the last exception. When the
  \<open>k\<close>-th call (after \<open>k\<close> retriable failures) fails with a 4xx error, that error is re-raised
  and no further call is made.
\<close>

theorem generate_retry_policy:
  "((\<forall>i<3. fails_retriably api i) \<longrightarrow>
      (\<exists>e. api 2 = Raises e \<and>
        generate api =
          (Inl (ConnectionError (Some e)), \<lparr>last_exception = Some e, calls = 3, slept = [1, 3]\<rparr>)))
   \<and> (\<forall>k e. k < 3 \<and> (\<forall>i<k. fails_retriably api i) \<and> api k = Raises e \<and> client_error e \<longrightarrow>
        fst (generate api) = Inl (Reraised e) \<and>
        calls (snd (generate api)) = k + 1 \<and>
        slept (snd (generate api)) = take k BACKOFF_DELAYS)"
proof (intro conjI impI allI)
  assume all: "\<forall>i<3. fails_retriably api i"
  then have "fails_retriably api 0" "fails_retriably api 1" "fails_retriably api 2" by auto
  then obtain e0 e1 e2 where
    e: "api 0 = Raises e0" "retriable e0" "api 1 = Raises e1" "retriable e1"
       "api 2 = Raises e2" "retriable e2"
    by (blast dest: fails_retriablyD)
  have "generate api = generate_loop api [1, 2] \<lparr>last_exception = Some e0, calls = 1, slept = [1]\<rparr>"
    using retriable_step [of api 0 e0, OF e(1,2), of 0 "[1, 2]" None "[]"]
    by (simp add: generate_unfold gen_init_def numeral_2_eq_2 numeral_3_eq_3 del: generate_loop.simps)
  also have "\<dots> = generate_loop api [2] \<lparr>last_exception = Some e1, calls = 2, slept = [1, 3]\<rparr>"
    using retriable_step [of api 1 e1, OF e(3,4), of 1 "[2]" "Some e0" "[1]"]
    by (simp add: numeral_2_eq_2 numeral_3_eq_3 del: generate_loop.simps)
  also have "\<dots> = generate_loop api [] \<lparr>last_exception = Some e2, calls = 3, slept = [1, 3]\<rparr>"
    using retriable_step [of api 2 e2, OF e(5,6), of 2 "[]" "Some e1" "[1, 3]"]
    by (simp add: numeral_2_eq_2 numeral_3_eq_3 del: generate_loop.simps)
  finally show "\<exists>e. api 2 = Raises e \<and>
        generate api =
          (Inl (ConnectionError (Some e)), \<lparr>last_exception = Some e, calls = 3, slept = [1, 3]\<rparr>)"
    using e(5) by simp
next
  fix k e
  assume h: "k < 3 \<and> (\<forall>i<k. fails_retriably api i) \<and> api k = Raises e \<and> client_error e"
  then have ke: "api k = Raises e" "client_error e" by auto
  from h consider "k = 0" | "k = 1" | "k = 2" by linarith
  then have "fst (generate api) = Inl (Reraised e) \<and>
        calls (snd (generate api)) = k + 1 \<and>
        slept (snd (generate api)) = take k BACKOFF_DELAYS"
  proof cases
    case 1
    obtain l' where "generate api = (Inl (Reraised e), \<lparr>last_exception = l', calls = Suc 0, slept = []\<rparr>)"
      using client_step [of api k e, OF ke, of 0 "[1, 2]" None "[]"] 1
      by (auto simp add: generate_unfold gen_init_def numeral_2_eq_2 numeral_3_eq_3 simp del: generate_loop.simps)
    with 1 show ?thesis by (simp add: BACKOFF_DELAYS_def)
  next
    case 2
    with h have "fails_retriably api 0" by auto
    then obtain e0 where e0: "api 0 = Raises e0" "retriable e0"
      by (blast dest: fails_retriablyD)
    have "generate api = generate_loop api [1, 2] \<lparr>last_exception = Some e0, calls = 1, slept = [1]\<rparr>"
      using retriable_step [of api 0 e0, OF e0, of 0 "[1, 2]" None "[]"]
    by (simp add: generate_unfold gen_init_def numeral_2_eq_2 numeral_3_eq_3 del: generate_loop.simps)
    then obtain l' where "generate api = (Inl (Reraised e), \<lparr>last_exception = l', calls = Suc 1, slept = [1]\<rparr>)"
      using client_step [of api k e, OF ke, of 1 "[2]" "Some e0" "[1]"] 2
      by (auto simp add: numeral_2_eq_2 numeral_3_eq_3 simp del: generate_loop.simps)
    with 2 show ?thesis by (simp add: BACKOFF_DELAYS_def)
  next
    case 3
    with h have "fails_retriably api 0" "fails_retriably api 1" by auto
    then obtain e0 e1 where e0: "api 0 = Raises e0" "retriable e0" and e1: "api 1 = Raises e1" "retriable e1"
      by (blast dest: fails_retriablyD)
    have "generate api = generate_loop api [1, 2] \<lparr>last_exception = Some e0, calls = 1, slept = [1]\<rparr>"
      using retriable_step [of api 0 e0, OF e0, of 0 "[1, 2]" None "[]"]
    by (simp add: generate_unfold gen_init_def numeral_2_eq_2 numeral_3_eq_3 del: generate_loop.simps)
    also have "\<dots> = generate_loop api [2] \<lparr>last_exception = Some e1, calls = 2, slept = [1, 3]\<rparr>"
      using retriable_step [of api 1 e1, OF e1, of 1 "[2]" "Some e0" "[1]"]
    by (simp add: numeral_2_eq_2 numeral_3_eq_3 del: generate_loop.simps)
    finally obtain l' where "generate api = (Inl (Reraised e), \<lparr>last_exception = l', calls = Suc 2, slept = [1, 3]\<rparr>)"
      using client_step [of api k e, OF ke, of 2 "[]" "Some e1" "[1, 3]"] 3
      by (auto simp add: numeral_2_eq_2 numeral_3_eq_3 simp del: generate_loop.simps)
    with 3 show ?thesis by (simp add: BACKOFF_DELAYS_def)
  qed
  then show "fst (generate api) = Inl (Reraised e)"
    and "calls (snd (generate api)) = k + 1"
    and "slept (snd (generate api)) = take k BACKOFF_DELAYS" by auto
qed

text \<open>
  Witness for C5: two timeouts followed by a 503; a connection failure followed by a 429.
\<close>

theorem generate_retry_policy_witness:
  "fails_retriably (\<lambda>n. (Raises (if n = 2 then APIStatusError 503 else APITimeoutError) :: unit api_outcome)) 0
   \<and> fails_retriably (\<lambda>n. (Raises (if n = 2 then APIStatusError 503 else APITimeoutError) :: unit api_outcome)) 1
   \<and> fails_retriably (\<lambda>n. (Raises (if n = 2 then APIStatusError 503 else APITimeoutError) :: unit api_outcome)) 2
   \<and> generate (\<lambda>n. (Raises (if n = 2 then APIStatusError 503 else APITimeoutError) :: unit api_outcome)) =
       (Inl (ConnectionError (Some (APIStatusError 503))),
        \<lparr>last_exception = Some (APIStatusError 503), calls = 3, slept = [1, 3]\<rparr>)
   \<and> fails_retriably (\<lambda>n. (Raises (if n = 1 then APIStatusError 429 else APIConnectionError) :: unit api_outcome)) 0
   \<and> client_error (APIStatusError 429)
   \<and> fst (generate (\<lambda>n. (Raises (if n = 1 then APIStatusError 429 else APIConnectionError) :: unit api_outcome)))
        = Inl (Reraised (APIStatusError 429))
   \<and> calls (snd (generate (\<lambda>n. (Raises (if n = 1 then APIStatusError 429 else APIConnectionError) :: unit api_outcome)))) = 2
   \<and> slept (snd (generate (\<lambda>n. (Raises (if n = 1 then APIStatusError 429 else APIConnectionError) :: unit api_outcome)))) = [1]"
proof -
  let ?a = "\<lambda>n. (Raises (if n = 2 then APIStatusError 503 else APITimeoutError) :: unit api_outcome)"
  let ?b = "\<lambda>n. (Raises (if n = 1 then APIStatusError 429 else APIConnectionError) :: unit api_outcome)"
  have ha: "\<forall>i<3. fails_retriably ?a i"
    by (simp add: fails_retriably_def)
  have hb: "(1::nat) < 3 \<and> (\<forall>i<1. fails_retriably ?b i) \<and> ?b 1 = Raises (APIStatusError 429)
      \<and> client_error (APIStatusError 429)"
    by (simp add: fails_retriably_def)
  from generate_retry_policy [of ?a] ha
  have 1: "generate ?a = (Inl (ConnectionError (Some (APIStatusError 503))),
        \<lparr>last_exception = Some (APIStatusError 503), calls = 3, slept = [1, 3]\<rparr>)"
    by auto
  from generate_retry_policy [of ?b]
  have "\<forall>k e. k < 3 \<and> (\<forall>i<k. fails_retriably ?b i) \<and> ?b k = Raises e \<and> client_error e \<longrightarrow>
        fst (generate ?b) = Inl (Reraised e) \<and> calls (snd (generate ?b)) = k + 1 \<and>
        slept (snd (generate ?b)) = take k BACKOFF_DELAYS"
    by (rule conjunct2)
  from this [rule_format, of 1 "APIStatusError 429"] hb
  have 2: "fst (generate ?b) = Inl (Reraised (APIStatusError 429)) \<and> calls (snd (generate ?b)) = 2
      \<and> slept (snd (generate ?b)) = [1]"
    by (simp add: BACKOFF_DELAYS_def)
  from ha hb 1 2 show ?thesis by simp
qed

end
